theory Spec2Isabelle
  imports Complex_Main
begin

section \<open>Data model of the shape editor (L.A7DrawShape)\<close>

text \<open>
  The editor of \<^verbatim>\<open>src/src/leaflet.a7.drawshape.js\<close> is one JavaScript object whose
  fields are mutated by event handlers. The model passes that object around as a record.
  JavaScript numbers are idealised as real numbers: arithmetic is exact, and neither NaN
  nor an infinite value occurs as a coordinate.
\<close>

record latlng =
  lat :: real
  lng :: real

record point =
  px :: real
  py :: real

text \<open>
  A node is a circle marker with its white background marker. Object identity (used by
  \<^verbatim>\<open>indexOf\<close> and by \<^verbatim>\<open>this.shape !== this.nodes[0]\<close>) is the layer
  number \<open>nid\<close>; \<open>background\<close> is the layer number of the halo.
\<close>

record node =
  nid :: nat
  nlatlng :: latlng
  background :: nat

datatype geometry =
    Marker
  | Polyline "latlng list"
  | Polygon "latlng list"
  | Rectangle latlng latlng
  | Circle latlng real

record shape =
  sid :: nat
  geom :: geometry

datatype event =
    StateChange string
  | BeforeNodeCreate latlng
  | NodeAdd nat
  | NodeRemove nat

record options =
  nodeRadius :: real
  autoPanSpeed :: real
  autoPanPadding :: "real \<times> real"

text \<open>
  The fields of the editor, followed by what the model keeps of the Leaflet map it
  talks to: the layers currently on the map, whether map dragging is enabled, the next
  unused layer number, and the log of the events fired so far. The field of the source
  called \<^verbatim>\<open>state\<close> is \<open>estate\<close> here. \<open>shapeType\<close> is a JavaScript string
  or \<^verbatim>\<open>null\<close>.
\<close>

record editor =
  opts :: options
  shape :: "shape option"
  nodes :: "node list"
  isDrawing :: bool
  shapeType :: "string option"
  tempLine :: "nat option"
  estate :: string
  layers :: "nat list"
  dragging :: bool
  next_id :: nat
  events :: "event list"

text \<open>
  What the code asks of Leaflet and does not define itself is a parameter of the model:
  the projection of a geographic coordinate to container pixels, the distance of two
  pixel points, the distance of two geographic coordinates in meters, the destination
  point at a distance and bearing, and the size of the map container.
\<close>

record leaflet =
  latLngToContainerPoint :: "latlng \<Rightarrow> point"
  pointDistanceTo :: "point \<Rightarrow> point \<Rightarrow> real"
  latLngDistanceTo :: "latlng \<Rightarrow> latlng \<Rightarrow> real"
  destinationPoint :: "latlng \<Rightarrow> real \<Rightarrow> real \<Rightarrow> latlng"
  getSize :: point

datatype error = TypeError

section \<open>Distance from a point to a segment\<close>

text \<open>
  \<^verbatim>\<open>_pointToLineDistance(p, a, b)\<close>, lines 411 to 449, with the source's names.
\<close>

definition pointToLineDistance :: "point \<Rightarrow> point \<Rightarrow> point \<Rightarrow> real" where
  "pointToLineDistance p a b =
    (let x = px p; y = py p;
         x1 = px a; y1 = py a;
         x2 = px b; y2 = py b;
         A = x - x1; B = y - y1;
         C = x2 - x1; D = y2 - y1;
         dot = A * C + B * D;
         len_sq = C * C + D * D;
         param = (if len_sq \<noteq> 0 then dot / len_sq else - 1);
         (xx, yy) = (if param < 0 then (x1, y1)
                     else if param > 1 then (x2, y2)
                     else (x1 + param * C, y1 + param * D));
         dx = x - xx; dy = y - yy
     in sqrt (dx * dx + dy * dy))"

text \<open>
  The helper as section 4.7 of the specification words it: project the query point on
  the line through the endpoints, clamp the parameter to the unit interval, and return
  the Euclidean distance to the clamped projection; for coincident endpoints, the
  distance to the first endpoint.
\<close>

definition euclid :: "point \<Rightarrow> point \<Rightarrow> real" where
  "euclid p q = sqrt ((px p - px q)\<^sup>2 + (py p - py q)\<^sup>2)"

definition along :: "point \<Rightarrow> point \<Rightarrow> real \<Rightarrow> point" where
  "along a b t = \<lparr>px = px a + t * (px b - px a), py = py a + t * (py b - py a)\<rparr>"

definition projection_param :: "point \<Rightarrow> point \<Rightarrow> point \<Rightarrow> real" where
  "projection_param p a b =
     ((px p - px a) * (px b - px a) + (py p - py a) * (py b - py a))
       / ((px b - px a)\<^sup>2 + (py b - py a)\<^sup>2)"

definition clamped_projection_distance :: "point \<Rightarrow> point \<Rightarrow> point \<Rightarrow> real" where
  "clamped_projection_distance p a b =
     (if px a = px b \<and> py a = py b then euclid p a
      else euclid p (along a b (max 0 (min 1 (projection_param p a b)))))"

section \<open>Auto-pan\<close>

text \<open>
  \<^verbatim>\<open>_autoPan(containerPoint)\<close>, lines 325 to 347. The four tests run in the
  source's order, a later assignment overwriting an earlier one. The result is the
  argument of the call of \<^verbatim>\<open>map.panBy\<close>, or \<open>None\<close> when the map is not panned.
\<close>

definition autoPan_offset :: "leaflet \<Rightarrow> options \<Rightarrow> point \<Rightarrow> real \<times> real" where
  "autoPan_offset m os containerPoint =
    (let mapSize = getSize m;
         padding = autoPanPadding os;
         x0 = 0;
         y0 = 0;
         x1 = (if px containerPoint < fst padding then - autoPanSpeed os else x0);
         x2 = (if px containerPoint > px mapSize - fst padding then autoPanSpeed os else x1);
         y1 = (if py containerPoint < snd padding then - autoPanSpeed os else y0);
         y2 = (if py containerPoint > py mapSize - snd padding then autoPanSpeed os else y1)
     in (x2, y2))"

definition autoPan :: "leaflet \<Rightarrow> options \<Rightarrow> point \<Rightarrow> (real \<times> real) option" where
  "autoPan m os containerPoint =
    (let (x, y) = autoPan_offset m os containerPoint
     in if x \<noteq> 0 \<or> y \<noteq> 0 then Some (x, y) else None)"

section \<open>The editor's operations\<close>

text \<open>
  The default options of the class, lines 33 to 46 (the colours, widths and opacities
  are not modelled: no decision of the code depends on them).
\<close>

definition default_options :: options where
  "default_options = \<lparr>nodeRadius = 6, autoPanSpeed = 10, autoPanPadding = (50, 50)\<rparr>"

text \<open>\<^verbatim>\<open>L.setOptions(this, options)\<close>: the keys given replace the current values.\<close>

record option_overrides =
  o_nodeRadius :: "real option"
  o_autoPanSpeed :: "real option"
  o_autoPanPadding :: "(real \<times> real) option"

definition setOptions :: "options \<Rightarrow> option_overrides \<Rightarrow> options" where
  "setOptions os ov =
     \<lparr>nodeRadius = (case o_nodeRadius ov of None \<Rightarrow> nodeRadius os | Some v \<Rightarrow> v),
      autoPanSpeed = (case o_autoPanSpeed ov of None \<Rightarrow> autoPanSpeed os | Some v \<Rightarrow> v),
      autoPanPadding = (case o_autoPanPadding ov of None \<Rightarrow> autoPanPadding os | Some v \<Rightarrow> v)\<rparr>"

definition fire :: "event \<Rightarrow> editor \<Rightarrow> editor" where
  "fire ev s = s\<lparr>events := events s @ [ev]\<rparr>"

definition removeLayer :: "nat \<Rightarrow> editor \<Rightarrow> editor" where
  "removeLayer i s = s\<lparr>layers := removeAll i (layers s)\<rparr>"

definition addTo :: "nat \<Rightarrow> editor \<Rightarrow> editor" where
  "addTo i s = s\<lparr>layers := layers s @ [i]\<rparr>"

text \<open>\<^verbatim>\<open>initialize(map, options)\<close>, lines 53 to 63, on a map with dragging enabled.\<close>

definition initialize :: "option_overrides option \<Rightarrow> editor" where
  "initialize ov =
     \<lparr>opts = (case ov of None \<Rightarrow> default_options | Some v \<Rightarrow> setOptions default_options v),
      shape = None,
      nodes = [],
      isDrawing = False,
      shapeType = None,
      tempLine = None,
      estate = ''idle'',
      layers = [],
      dragging = True,
      next_id = 0,
      events = []\<rparr>"

text \<open>\<^verbatim>\<open>clear()\<close>, lines 81 to 100. Line 97 assigns \<^verbatim>\<open>true\<close> to \<^verbatim>\<open>isDrawing\<close>.\<close>

definition removeTempLine :: "editor \<Rightarrow> editor" where
  "removeTempLine s =
     (case tempLine s of
        Some t \<Rightarrow> (removeLayer t s)\<lparr>tempLine := None\<rparr>
      | None \<Rightarrow> s)"

definition clear :: "editor \<Rightarrow> editor" where
  "clear s =
    (let s1 = (case shape s of Some sh \<Rightarrow> removeLayer (sid sh) s | None \<Rightarrow> s);
         s2 = removeTempLine s1;
         s3 = fold (\<lambda>node st. removeLayer (background node) (removeLayer (nid node) st))
                (nodes s2) s2;
         s4 = s3\<lparr>shape := None, nodes := [], isDrawing := True, estate := ''idle''\<rparr>
     in fire (StateChange (estate s4)) s4)"

text \<open>\<^verbatim>\<open>startDrawing(type)\<close>, lines 69 to 76.\<close>

definition startDrawing :: "string \<Rightarrow> editor \<Rightarrow> editor" where
  "startDrawing type s =
    (let s1 = clear s;
         s2 = s1\<lparr>shapeType := Some type, isDrawing := True, estate := ''drawing''\<rparr>;
         s3 = fire (StateChange (estate s2)) s2
     in s3\<lparr>dragging := False\<rparr>)"

text \<open>
  \<^verbatim>\<open>_createNode(latlng)\<close>, lines 117 to 189, without subscribers that change the
  node's options: the halo and then the node are put on the map, each under a fresh
  layer number. The drag handlers are not modelled; the handler of the secondary action
  is \<open>onNodeContextMenu\<close> below.
\<close>

definition createNode :: "latlng \<Rightarrow> editor \<Rightarrow> node \<times> editor" where
  "createNode ll s =
    (let s1 = fire (BeforeNodeCreate ll) s;
         whiteBackground = next_id s1;
         s2 = addTo whiteBackground (s1\<lparr>next_id := whiteBackground + 1\<rparr>);
         i = next_id s2;
         s3 = addTo i (s2\<lparr>next_id := i + 1\<rparr>)
     in (\<lparr>nid = i, nlatlng = ll, background = whiteBackground\<rparr>, s3))"

text \<open>
  \<^verbatim>\<open>_updateShape()\<close>, lines 353 to 401. A new polyline, polygon, rectangle or circle
  is a fresh layer; for a point the shape is the node itself. Where no branch applies
  the field \<^verbatim>\<open>shape\<close> keeps its value. The order of the layers on the screen
  (\<^verbatim>\<open>bringToFront\<close>) is not modelled.
\<close>

definition newShape :: "geometry \<Rightarrow> editor \<Rightarrow> editor" where
  "newShape g s =
    (let i = next_id s
     in addTo i (s\<lparr>shape := Some \<lparr>sid = i, geom = g\<rparr>, next_id := i + 1\<rparr>))"

definition latLngBounds :: "latlng list \<Rightarrow> latlng \<times> latlng" where
  "latLngBounds ls =
     (\<lparr>lat = fold min (map lat (tl ls)) (lat (hd ls)),
       lng = fold min (map lng (tl ls)) (lng (hd ls))\<rparr>,
      \<lparr>lat = fold max (map lat (tl ls)) (lat (hd ls)),
       lng = fold max (map lng (tl ls)) (lng (hd ls))\<rparr>)"

definition updateShape :: "leaflet \<Rightarrow> editor \<Rightarrow> editor" where
  "updateShape m s =
    (let s1 = (case shape s of
                 Some sh \<Rightarrow>
                   if (case nodes s of [] \<Rightarrow> True | n # _ \<Rightarrow> sid sh \<noteq> nid n)
                   then removeLayer (sid sh) s else s
               | None \<Rightarrow> s);
         latlngs = map nlatlng (nodes s1)
     in if shapeType s1 = Some ''point'' \<and> length latlngs = 1 then
          s1\<lparr>shape := Some \<lparr>sid = nid (hd (nodes s1)), geom = Marker\<rparr>\<rparr>
        else if shapeType s1 = Some ''line'' \<and> length latlngs \<ge> 2 then
          newShape (Polyline latlngs) s1
        else if shapeType s1 = Some ''polygon'' \<and> length latlngs \<ge> 3 then
          newShape (Polygon (latlngs @ [hd latlngs])) s1
        else if shapeType s1 = Some ''rectangle'' \<and> length latlngs \<ge> 2 then
          newShape (Rectangle (fst (latLngBounds latlngs)) (snd (latLngBounds latlngs))) s1
        else if shapeType s1 = Some ''circle'' \<and> length latlngs \<ge> 2 then
          (let center = latlngs ! 0;
               radius = latLngDistanceTo m center (latlngs ! 1)
           in newShape (Circle center radius) s1)
        else s1)"

text \<open>
  JavaScript's \<^verbatim>\<open>Array.prototype.splice(start, deleteCount, ...items)\<close>: a negative
  start counts from the end, a start beyond the end is the end. \<open>indexOf\<close> finds a node
  by identity and returns \<open>- 1\<close> when it is not in the list.
\<close>

definition splice_js :: "int \<Rightarrow> nat \<Rightarrow> 'a list \<Rightarrow> 'a list \<Rightarrow> 'a list" where
  "splice_js start deleteCount items xs =
    (let k = (if start < 0 then nat (max (int (length xs) + start) 0)
              else min (nat start) (length xs))
     in take k xs @ items @ drop (k + deleteCount) xs)"

fun indexOf :: "node list \<Rightarrow> nat \<Rightarrow> int" where
  "indexOf [] i = - 1"
| "indexOf (n # ns) i =
     (if nid n = i then 0
      else (let k = indexOf ns i in if k < 0 then - 1 else k + 1))"

text \<open>
  The handler of \<^verbatim>\<open>contextmenu\<close> that \<^verbatim>\<open>_createNode\<close> attaches to the node,
  lines 170 to 186.
\<close>

definition onNodeContextMenu :: "leaflet \<Rightarrow> node \<Rightarrow> editor \<Rightarrow> editor" where
  "onNodeContextMenu m node s =
    (let minNodes = (if shapeType s = Some ''polygon'' then 3
                     else (if shapeType s = Some ''rectangle'' \<or> shapeType s = Some ''circle''
                           then 2 else 2)) :: nat
     in if length (nodes s) = minNodes then clear s
        else if length (nodes s) > minNodes then
          (let idx = indexOf (nodes s) (nid node);
               s1 = s\<lparr>nodes := splice_js idx 1 [] (nodes s)\<rparr>;
               s2 = removeLayer (nid node) s1;
               s3 = removeLayer (background node) s2;
               s4 = updateShape m s3
           in fire (NodeRemove (nid node)) s4)
        else s)"

section \<open>Click routing\<close>

text \<open>
  The first loop of \<^verbatim>\<open>_onMapClick\<close>, lines 203 to 210: \<^verbatim>\<open>canAdd\<close> becomes
  false at the first node within \<open>2 * nodeRadius\<close> pixels of the click.
\<close>

fun canAdd :: "leaflet \<Rightarrow> real \<Rightarrow> point \<Rightarrow> node list \<Rightarrow> bool" where
  "canAdd m r clickPoint [] = True"
| "canAdd m r clickPoint (n # ns) =
     (let nodePoint = latLngToContainerPoint m (nlatlng n);
          dist = pointDistanceTo m clickPoint nodePoint
      in if dist \<le> r * 2 then False else canAdd m r clickPoint ns)"

text \<open>
  The second loop, lines 213 to 223. \<^verbatim>\<open>minDist\<close> starts as \<^verbatim>\<open>Infinity\<close>, which
  is \<open>None\<close> here; \<^verbatim>\<open>insertIdx\<close> starts as \<open>- 1\<close>. The second endpoint of the
  segment at index \<open>i\<close> is the node at index \<open>(i + 1) mod length\<close>, whatever the shape
  type.
\<close>

definition segment_at :: "leaflet \<Rightarrow> node list \<Rightarrow> nat \<Rightarrow> point \<times> point" where
  "segment_at m ns i =
     (latLngToContainerPoint m (nlatlng (ns ! i)),
      latLngToContainerPoint m (nlatlng (ns ! ((i + 1) mod length ns))))"

definition nearest_step ::
  "leaflet \<Rightarrow> point \<Rightarrow> node list \<Rightarrow> nat \<Rightarrow> real option \<times> int \<Rightarrow> real option \<times> int" where
  "nearest_step m clickPoint ns i acc =
     (let (p1, p2) = segment_at m ns i;
          dist = pointToLineDistance clickPoint p1 p2
      in if (case fst acc of None \<Rightarrow> True | Some minDist \<Rightarrow> dist < minDist)
         then (Some dist, int i + 1) else acc)"

definition nearest_segment :: "leaflet \<Rightarrow> point \<Rightarrow> node list \<Rightarrow> real option \<times> int" where
  "nearest_segment m clickPoint ns =
     fold (nearest_step m clickPoint ns) [0..<length ns] (None, - 1)"

text \<open>
  The first block of \<^verbatim>\<open>_onMapClick\<close>, lines 197 to 233: \<open>Some\<close> of the new editor
  when the block inserts a node and returns, \<open>None\<close> when control goes on to line 235.
\<close>

definition idleInsertion :: "leaflet \<Rightarrow> latlng \<Rightarrow> editor \<Rightarrow> editor option" where
  "idleInsertion m ll s =
    (if \<not> isDrawing s
        \<and> (shapeType s = Some ''polygon'' \<or> shapeType s = Some ''line'')
        \<and> length (nodes s) \<ge> (if shapeType s = Some ''polygon'' then 3 else 2)
     then
       (let clickPoint = latLngToContainerPoint m ll
        in if canAdd m (nodeRadius (opts s)) clickPoint (nodes s) then
             (let (minDist, insertIdx) = nearest_segment m clickPoint (nodes s)
              in if (case minDist of None \<Rightarrow> False
                     | Some d \<Rightarrow> d \<le> nodeRadius (opts s) * 2)
                 then
                   (let (node, s1) = createNode ll s;
                        s2 = s1\<lparr>nodes := splice_js insertIdx 0 [node] (nodes s1)\<rparr>;
                        s3 = updateShape m s2
                    in Some (fire (NodeAdd (nid node)) s3))
                 else None)
           else None)
     else None)"

text \<open>The end of a drawing, lines 255 to 261 and again lines 273 to 279.\<close>

definition finishDrawing :: "editor \<Rightarrow> editor" where
  "finishDrawing s =
    (let s1 = s\<lparr>isDrawing := False, estate := ''idle''\<rparr>;
         s2 = fire (StateChange (estate s1)) s1
     in removeTempLine s2)"

text \<open>\<^verbatim>\<open>_onMapClick(e)\<close>, lines 196 to 281; only \<^verbatim>\<open>e.latlng\<close> is read.\<close>

definition onMapClick :: "leaflet \<Rightarrow> latlng \<Rightarrow> editor \<Rightarrow> editor" where
  "onMapClick m ll s =
    (case idleInsertion m ll s of
       Some s' \<Rightarrow> s'
     | None \<Rightarrow>
        if \<not> isDrawing s then s
        else if shapeType s = Some ''point'' \<and> shape s = None then
          (let (node, s1) = createNode ll s;
               s2 = s1\<lparr>nodes := nodes s1 @ [node]\<rparr>;
               s3 = s2\<lparr>shape := Some \<lparr>sid = nid node, geom = Marker\<rparr>,
                       isDrawing := False, estate := ''idle''\<rparr>;
               s4 = fire (StateChange (estate s3)) s3
           in fire (NodeAdd (nid node)) s4)
        else if shapeType s = Some ''line'' \<and> length (nodes s) > 1
                \<and> pointDistanceTo m (latLngToContainerPoint m (nlatlng (last (nodes s))))
                      (latLngToContainerPoint m ll) \<le> nodeRadius (opts s) * 2
        then finishDrawing s
        else
          (let (node, s1) = createNode ll s;
               s2 = s1\<lparr>nodes := nodes s1 @ [node]\<rparr>;
               s3 = updateShape m s2;
               s4 = fire (NodeAdd (nid node)) s3
           in if (shapeType s4 = Some ''polygon'' \<or> shapeType s4 = Some ''rectangle''
                    \<or> shapeType s4 = Some ''circle'')
                 \<and> length (nodes s4) \<ge> (if shapeType s4 = Some ''polygon'' then 3 else 2)
              then finishDrawing s4
              else s4))"

section \<open>GeoJSON\<close>

text \<open>
  A GeoJSON position is the array \<^verbatim>\<open>[lng, lat]\<close>; \<open>Undefined\<close> is what reading
  index 0 of an empty JavaScript array gives. The member \<^verbatim>\<open>coordinates\<close> is a
  position, an array of positions or an array of rings. \<^verbatim>\<open>getGeoJSON\<close> returns
  such an object, \<^verbatim>\<open>null\<close>, or \<^verbatim>\<open>undefined\<close> when it reaches its end
  without a \<^verbatim>\<open>return\<close>.
\<close>

datatype position = Pos real real | Undefined

datatype gj_coordinates =
    Position position
  | Positions "position list"
  | Rings "position list list"

record geojson =
  gtype :: "string option"
  coordinates :: gj_coordinates
  radius :: "real option"

datatype js_geojson = JNull | JUndefined | JObject geojson

definition at0 :: "position list \<Rightarrow> position" where
  "at0 cs = (case cs of [] \<Rightarrow> Undefined | c # _ \<Rightarrow> c)"

text \<open>
  \<^verbatim>\<open>getGeoJSON()\<close>, lines 455 to 493. In the branch of the circle the receiver of
  \<^verbatim>\<open>distanceTo\<close> is \<^verbatim>\<open>coordinates[0]\<close>, the plain array \<^verbatim>\<open>[lng, lat]\<close> built
  on line 460, which has no such method: the call throws a TypeError.
\<close>

definition getGeoJSON :: "editor \<Rightarrow> error + js_geojson" where
  "getGeoJSON s =
    (if shape s = None then Inr JNull
     else
      (let coordinates = map (\<lambda>node. (lng (nlatlng node), lat (nlatlng node))) (nodes s);
           arr = map (\<lambda>c. Pos (fst c) (snd c)) coordinates
       in if shapeType s = Some ''point'' then
            Inr (JObject \<lparr>gtype = Some ''Point'', coordinates = Position (at0 arr),
                          radius = None\<rparr>)
          else if shapeType s = Some ''line'' then
            Inr (JObject \<lparr>gtype = Some ''LineString'', coordinates = Positions arr,
                          radius = None\<rparr>)
          else if shapeType s = Some ''polygon'' then
            Inr (JObject \<lparr>gtype = Some ''Polygon'', coordinates = Rings [arr @ [at0 arr]],
                          radius = None\<rparr>)
          else if shapeType s = Some ''rectangle'' \<and> length coordinates = 2 then
            (let c0 = coordinates ! 0; c1 = coordinates ! 1
             in Inr (JObject \<lparr>gtype = Some ''Polygon'',
                      coordinates = Rings [[Pos (fst c0) (snd c0), Pos (fst c1) (snd c0),
                                             Pos (fst c1) (snd c1), Pos (fst c0) (snd c1),
                                             Pos (fst c0) (snd c0)]],
                      radius = None\<rparr>))
          else if shapeType s = Some ''circle'' \<and> length coordinates = 2 then
            Inl TypeError
          else Inr JUndefined))"

text \<open>
  \<^verbatim>\<open>String.prototype.toLowerCase\<close> on the ASCII letters, which are all that the
  GeoJSON type names contain.
\<close>

definition toLowerCase :: "string \<Rightarrow> string" where
  "toLowerCase str =
     map (\<lambda>c. if 65 \<le> (of_char c :: nat) \<and> (of_char c :: nat) \<le> 90
               then char_of ((of_char c :: nat) + 32) else c) str"

text \<open>
  \<^verbatim>\<open>L.latLng(coord[1], coord[0])\<close>: reading an index of \<^verbatim>\<open>undefined\<close> throws a
  TypeError.
\<close>

definition toLatLng :: "position \<Rightarrow> error + latlng" where
  "toLatLng c = (case c of Pos x y \<Rightarrow> Inr \<lparr>lat = y, lng = x\<rparr> | Undefined \<Rightarrow> Inl TypeError)"

fun toLatLngs :: "position list \<Rightarrow> error + latlng list" where
  "toLatLngs [] = Inr []"
| "toLatLngs (c # cs) =
     (case toLatLng c of
        Inl e \<Rightarrow> Inl e
      | Inr l \<Rightarrow> (case toLatLngs cs of Inl e \<Rightarrow> Inl e | Inr ls \<Rightarrow> Inr (l # ls)))"

text \<open>The loop of lines 543 to 546: a node for each coordinate, appended in order.\<close>

fun createNodes :: "latlng list \<Rightarrow> editor \<Rightarrow> editor" where
  "createNodes [] s = s"
| "createNodes (c # cs) s =
     (let (node, s1) = createNode c s
      in createNodes cs (s1\<lparr>nodes := nodes s1 @ [node]\<rparr>))"

text \<open>
  The \<^verbatim>\<open>switch\<close> of lines 512 to 534: the shape type and the coordinates it leaves,
  \<open>None\<close> for the \<^verbatim>\<open>default\<close> branch, which returns. A \<^verbatim>\<open>coordinates\<close> member of
  another kind than the type member announces is not GeoJSON; what Leaflet makes of it
  is not modelled, and the model stops with \<open>IllTyped\<close>.
\<close>

datatype import_error = Thrown error | IllTyped

definition importSwitch ::
  "string \<Rightarrow> geojson \<Rightarrow> import_error + (string \<times> latlng list) option" where
  "importSwitch t g =
    (if t = ''Point'' then
       (case coordinates g of
          Position c \<Rightarrow>
            (case toLatLng c of
               Inl e \<Rightarrow> Inl (Thrown e)
             | Inr l \<Rightarrow> Inr (Some (toLowerCase t, [l])))
        | _ \<Rightarrow> Inl IllTyped)
     else if t = ''LineString'' then
       (case coordinates g of
          Positions cs \<Rightarrow>
            (case toLatLngs cs of
               Inl e \<Rightarrow> Inl (Thrown e)
             | Inr ls \<Rightarrow> Inr (Some (toLowerCase t, ls)))
        | _ \<Rightarrow> Inl IllTyped)
     else if t = ''Polygon'' then
       (case coordinates g of
          Rings [] \<Rightarrow> Inl (Thrown TypeError)
        | Rings (ring # _) \<Rightarrow>
            if length ring = 5 then
              (case toLatLngs [ring ! 0, ring ! 2] of
                 Inl e \<Rightarrow> Inl (Thrown e)
               | Inr ls \<Rightarrow> Inr (Some (''rectangle'', ls)))
            else
              (case toLatLngs (butlast ring) of
                 Inl e \<Rightarrow> Inl (Thrown e)
               | Inr ls \<Rightarrow> Inr (Some (toLowerCase t, ls)))
        | _ \<Rightarrow> Inl IllTyped)
     else Inr None)"

text \<open>
  \<^verbatim>\<open>drawFromGeoJSON(geojson, options)\<close>, lines 500 to 549. The test of line 503 is
  JavaScript truthiness: an absent type and the empty string both return there. A
  \<^verbatim>\<open>radius\<close> is truthy when it is present and not zero.
\<close>

definition drawFromGeoJSON ::
  "leaflet \<Rightarrow> js_geojson \<Rightarrow> option_overrides option \<Rightarrow> editor \<Rightarrow> import_error + editor" where
  "drawFromGeoJSON m gj ov s =
    (let s0 = clear s
     in case gj of
          JNull \<Rightarrow> Inr s0
        | JUndefined \<Rightarrow> Inr s0
        | JObject g \<Rightarrow>
           (case gtype g of
              None \<Rightarrow> Inr s0
            | Some t \<Rightarrow>
               if t = [] then Inr s0
               else
                (let s1 = (case ov of
                             Some v \<Rightarrow> s0\<lparr>opts := setOptions (opts s0) v\<rparr>
                           | None \<Rightarrow> s0);
                     s2 = s1\<lparr>shapeType := Some (toLowerCase t)\<rparr>
                 in case importSwitch t g of
                      Inl e \<Rightarrow> Inl e
                    | Inr None \<Rightarrow> Inr s2
                    | Inr (Some (ty, cs)) \<Rightarrow>
                       (let s3 = s2\<lparr>shapeType := Some ty\<rparr>;
                            (s4, cs') =
                              (case (if t = ''Point'' then radius g else None) of
                                 None \<Rightarrow> (s3, cs)
                               | Some r \<Rightarrow>
                                  if r \<noteq> 0
                                  then (s3\<lparr>shapeType := Some ''circle''\<rparr>,
                                        [hd cs, destinationPoint m (hd cs) r 90])
                                  else (s3, cs));
                            s5 = createNodes cs' s4
                        in Inr (updateShape m s5)))))"

text \<open>\<^verbatim>\<open>drawFromGeoJSON(getGeoJSON())\<close>: the export handed back to the import.\<close>

definition roundTrip :: "leaflet \<Rightarrow> editor \<Rightarrow> import_error + editor" where
  "roundTrip m s =
    (case getGeoJSON s of
       Inl e \<Rightarrow> Inl (Thrown e)
     | Inr gj \<Rightarrow> drawFromGeoJSON m gj None s)"

section \<open>Fixtures and predicates of the properties\<close>

text \<open>
  A map for concrete runs: a pixel is a degree, longitude to the right and latitude
  downwards, distances are Euclidean, and the container has the size given.
\<close>

definition flat_projection :: "latlng \<Rightarrow> point" where
  "flat_projection l = \<lparr>px = lng l, py = lat l\<rparr>"

definition flat_distance :: "latlng \<Rightarrow> latlng \<Rightarrow> real" where
  "flat_distance a b = euclid (flat_projection a) (flat_projection b)"

definition flat_destination :: "latlng \<Rightarrow> real \<Rightarrow> real \<Rightarrow> latlng" where
  "flat_destination c r bearing = c\<lparr>lng := lng c + r\<rparr>"

definition flat_map :: "point \<Rightarrow> leaflet" where
  "flat_map sz =
     \<lparr>latLngToContainerPoint = flat_projection,
      pointDistanceTo = euclid,
      latLngDistanceTo = flat_distance,
      destinationPoint = flat_destination,
      getSize = sz\<rparr>"

text \<open>
  Two runs of the editor from a state \<open>s\<close>: a drawing session of the given type with
  clicks at \<open>a\<close> and then at \<open>b\<close>, and a drawing session of a point with one click.
\<close>

definition two_clicks :: "string \<Rightarrow> latlng \<Rightarrow> latlng \<Rightarrow> leaflet \<Rightarrow> editor \<Rightarrow> editor" where
  "two_clicks ty a b m s = onMapClick m b (onMapClick m a (startDrawing ty s))"

definition point_run :: "latlng \<Rightarrow> leaflet \<Rightarrow> editor \<Rightarrow> editor" where
  "point_run ll m s = onMapClick m ll (startDrawing ''point'' s)"

text \<open>
  A drawing session of the given type with clicks at (lat 0, lng 0), (lat 0, lng 60)
  and (lat 80, lng 60) and a fourth click on the third node. For a line the fourth
  click ends the drawing; for a polygon the third click has ended it.
\<close>

definition triangle_run :: "string \<Rightarrow> leaflet \<Rightarrow> editor \<Rightarrow> editor" where
  "triangle_run ty m s =
     onMapClick m \<lparr>lat = 80, lng = 60\<rparr>
       (onMapClick m \<lparr>lat = 80, lng = 60\<rparr>
         (onMapClick m \<lparr>lat = 0, lng = 60\<rparr>
           (onMapClick m \<lparr>lat = 0, lng = 0\<rparr> (startDrawing ty s))))"

text \<open>
  The distances that the second loop of \<^verbatim>\<open>_onMapClick\<close> compares, one for each
  index, in the order of the loop.
\<close>

definition candidate_distances :: "leaflet \<Rightarrow> point \<Rightarrow> node list \<Rightarrow> real list" where
  "candidate_distances m clickPoint ns =
     map (\<lambda>i. pointToLineDistance clickPoint (fst (segment_at m ns i)) (snd (segment_at m ns i)))
       [0..<length ns]"

text \<open>
  The candidate segments as section 4.3 of the specification words them: every
  consecutive pair of nodes, with the pair from the last node back to the first for a
  polygon and without it for a line; and the distances from the click to them.
\<close>

definition consecutive_pairs :: "bool \<Rightarrow> 'a list \<Rightarrow> ('a \<times> 'a) list" where
  "consecutive_pairs wrapping xs =
     zip xs (tl xs) @ (if wrapping \<and> xs \<noteq> [] then [(last xs, hd xs)] else [])"

definition spec_candidate_distances ::
  "leaflet \<Rightarrow> point \<Rightarrow> string option \<Rightarrow> node list \<Rightarrow> real list" where
  "spec_candidate_distances m clickPoint ty ns =
     map (\<lambda>(a, b). pointToLineDistance clickPoint
                      (latLngToContainerPoint m (nlatlng a))
                      (latLngToContainerPoint m (nlatlng b)))
       (consecutive_pairs (ty = Some ''polygon'') ns)"

text \<open>
  A completed shape, by the invariants of section 3 of the specification, and what the
  round trip has to reproduce: the coordinates of the nodes, in order, and the shape
  type.
\<close>

definition completed :: "editor \<Rightarrow> bool" where
  "completed s =
     (shape s \<noteq> None
      \<and> ((shapeType s = Some ''point'' \<and> length (nodes s) = 1)
         \<or> (shapeType s = Some ''line'' \<and> length (nodes s) \<ge> 2)
         \<or> (shapeType s = Some ''polygon'' \<and> length (nodes s) \<ge> 3)
         \<or> (shapeType s = Some ''rectangle'' \<and> length (nodes s) = 2)
         \<or> (shapeType s = Some ''circle'' \<and> length (nodes s) = 2)))"

definition reproduces :: "editor \<Rightarrow> import_error + editor \<Rightarrow> bool" where
  "reproduces s r =
     (case r of
        Inl e \<Rightarrow> False
      | Inr s' \<Rightarrow> map nlatlng (nodes s') = map nlatlng (nodes s) \<and> shapeType s' = shapeType s)"

text \<open>The array of positions that \<^verbatim>\<open>getGeoJSON\<close> builds from the coordinates.\<close>

definition exported :: "latlng list \<Rightarrow> position list" where
  "exported ls = map (\<lambda>c. Pos (fst c) (snd c)) (map (\<lambda>l. (lng l, lat l)) ls)"

section \<open>The distance helper\<close>

lemma len_sq_zero_iff:
  "(px b - px a) * (px b - px a) + (py b - py a) * (py b - py a) = 0
     \<longleftrightarrow> px a = px b \<and> py a = py b"
  by auto

lemma pointToLineDistance_degenerate:
  assumes "px a = px b \<and> py a = py b"
  shows "pointToLineDistance p a b = euclid p a"
  using assms
  by (simp add: pointToLineDistance_def euclid_def power2_eq_square Let_def)

lemma pointToLineDistance_branches:
  assumes "\<not> (px a = px b \<and> py a = py b)"
  shows "pointToLineDistance p a b =
      (if projection_param p a b < 0 then euclid p a
       else if projection_param p a b > 1 then euclid p b
       else euclid p (along a b (projection_param p a b)))"
proof -
  have ne: "(px b - px a) * (px b - px a) + (py b - py a) * (py b - py a) \<noteq> 0"
    using assms len_sq_zero_iff[of b a] by blast
  define t where "t = projection_param p a b"
  have t: "((px p - px a) * (px b - px a) + (py p - py a) * (py b - py a))
             / ((px b - px a) * (px b - px a) + (py b - py a) * (py b - py a)) = t"
    by (simp add: t_def projection_param_def power2_eq_square)
  have "pointToLineDistance p a b =
      (if t < 0 then euclid p a else if t > 1 then euclid p b else euclid p (along a b t))"
    using ne t
    by (simp add: pointToLineDistance_def euclid_def along_def power2_eq_square Let_def)
  then show ?thesis by (simp add: t_def)
qed

lemma clamped_branches:
  "euclid p (along a b (max 0 (min 1 t))) =
      (if t < 0 then euclid p a else if t > 1 then euclid p b else euclid p (along a b t))"
proof -
  have a0: "along a b 0 = a" and a1: "along a b 1 = b"
    by (simp_all add: along_def)
  consider "t < 0" | "t > 1" | "0 \<le> t \<and> t \<le> 1" by linarith
  then show ?thesis
    by cases (simp_all add: a0 a1 max_absorb1 max_absorb2 min_absorb1 min_absorb2)
qed

text \<open>
  C8. For every query point and segment, \<^verbatim>\<open>_pointToLineDistance\<close> returns the
  Euclidean distance from the point to its projection on the line through the endpoints,
  with the projection parameter clamped to the unit interval, and the distance to the
  first endpoint when the endpoints coincide. Point (0,5) against the segment from
  (0,0) to (10,0) gives 5, and so does point (-5,0).
\<close>

theorem pointToLineDistance_is_clamped_projection:
  "pointToLineDistance p a b = clamped_projection_distance p a b
   \<and> (px a = px b \<and> py a = py b \<longrightarrow> pointToLineDistance p a b = euclid p a)
   \<and> pointToLineDistance \<lparr>px = 0, py = 5\<rparr> \<lparr>px = 0, py = 0\<rparr> \<lparr>px = 10, py = 0\<rparr> = 5
   \<and> pointToLineDistance \<lparr>px = - 5, py = 0\<rparr> \<lparr>px = 0, py = 0\<rparr> \<lparr>px = 10, py = 0\<rparr> = 5"
proof -
  have general: "pointToLineDistance p a b = clamped_projection_distance p a b"
  proof (cases "px a = px b \<and> py a = py b")
    case True
    then show ?thesis
      using pointToLineDistance_degenerate[of a b p]
      by (auto simp add: clamped_projection_distance_def)
  next
    case False
    have "clamped_projection_distance p a b
            = euclid p (along a b (max 0 (min 1 (projection_param p a b))))"
      using False by (auto simp add: clamped_projection_distance_def)
    then show ?thesis
      using pointToLineDistance_branches[OF False, of p] clamped_branches[of p a b]
      by simp
  qed
  have upper: "pointToLineDistance \<lparr>px = 0, py = 5\<rparr> \<lparr>px = 0, py = 0\<rparr> \<lparr>px = 10, py = 0\<rparr> = 5"
    by (simp add: pointToLineDistance_def)
  have left: "pointToLineDistance \<lparr>px = - 5, py = 0\<rparr> \<lparr>px = 0, py = 0\<rparr> \<lparr>px = 10, py = 0\<rparr> = 5"
    by (simp add: pointToLineDistance_def)
  show ?thesis
    using general upper left pointToLineDistance_degenerate[of a b p] by blast
qed

theorem pointToLineDistance_is_clamped_projection_witness:
  "pointToLineDistance \<lparr>px = 3, py = 4\<rparr> \<lparr>px = 0, py = 0\<rparr> \<lparr>px = 0, py = 0\<rparr>
     = clamped_projection_distance \<lparr>px = 3, py = 4\<rparr> \<lparr>px = 0, py = 0\<rparr> \<lparr>px = 0, py = 0\<rparr>
   \<and> px \<lparr>px = 0, py = 0\<rparr> = px \<lparr>px = 0, py = 0\<rparr>
   \<and> pointToLineDistance \<lparr>px = 3, py = 4\<rparr> \<lparr>px = 0, py = 0\<rparr> \<lparr>px = 0, py = 0\<rparr>
       = euclid \<lparr>px = 3, py = 4\<rparr> \<lparr>px = 0, py = 0\<rparr>"
  using pointToLineDistance_is_clamped_projection
          [of "\<lparr>px = 3, py = 4\<rparr>" "\<lparr>px = 0, py = 0\<rparr>" "\<lparr>px = 0, py = 0\<rparr>"]
  by simp

text \<open>
  The value returned is moreover the least distance from the query point to a point of
  the segment.
\<close>

lemma segment_sq_interior:
  fixes u v c d t :: real
  assumes "c * c + d * d \<noteq> 0"
  shows "(u - (u * c + v * d) / (c * c + d * d) * c) * (u - (u * c + v * d) / (c * c + d * d) * c)
         + (v - (u * c + v * d) / (c * c + d * d) * d) * (v - (u * c + v * d) / (c * c + d * d) * d)
           \<le> (u - t * c)\<^sup>2 + (v - t * d)\<^sup>2"
proof -
  define L where "L = c * c + d * d"
  define k where "k = (u * c + v * d) / L"
  have Lpos: "0 < L"
    using assms unfolding L_def
    by (metis not_sum_squares_lt_zero linorder_neqE_linordered_idom)
  have dt: "u * c + v * d = k * L" using Lpos by (simp add: k_def)
  have "(u - t * c)\<^sup>2 + (v - t * d)\<^sup>2 - ((u - k * c) * (u - k * c) + (v - k * d) * (v - k * d))
        = (t - k) * ((t + k) * L - 2 * (u * c + v * d))"
    unfolding L_def by (simp add: algebra_simps power2_eq_square)
  also have "\<dots> = (t - k)\<^sup>2 * L"
    unfolding dt by (simp add: algebra_simps power2_eq_square)
  also have "\<dots> \<ge> 0" using Lpos by simp
  finally show ?thesis unfolding k_def L_def by simp
qed

lemma segment_sq_first:
  fixes u v c d t :: real
  assumes "0 \<le> t" and "u * c + v * d \<le> 0"
  shows "u * u + v * v \<le> (u - t * c)\<^sup>2 + (v - t * d)\<^sup>2"
proof -
  have "(u - t * c)\<^sup>2 + (v - t * d)\<^sup>2 - (u * u + v * v)
        = t\<^sup>2 * (c * c + d * d) + 2 * t * (- (u * c + v * d))"
    by (simp add: algebra_simps power2_eq_square)
  moreover have "0 \<le> t\<^sup>2 * (c * c + d * d)" by simp
  moreover have "0 \<le> 2 * t * (- (u * c + v * d))" using assms by simp
  ultimately show ?thesis by linarith
qed

lemma segment_sq_second:
  fixes u v c d t :: real
  assumes "t \<le> 1" and "c * c + d * d \<le> u * c + v * d"
  shows "(u - c) * (u - c) + (v - d) * (v - d) \<le> (u - t * c)\<^sup>2 + (v - t * d)\<^sup>2"
proof -
  have "(u - t * c)\<^sup>2 + (v - t * d)\<^sup>2 - ((u - c) * (u - c) + (v - d) * (v - d))
        = (1 - t)\<^sup>2 * (c * c + d * d) + 2 * (1 - t) * ((u * c + v * d) - (c * c + d * d))"
    by (simp add: algebra_simps power2_eq_square)
  moreover have "0 \<le> (1 - t)\<^sup>2 * (c * c + d * d)" by simp
  moreover have "0 \<le> 2 * (1 - t) * ((u * c + v * d) - (c * c + d * d))" using assms by simp
  ultimately show ?thesis by linarith
qed

lemma pointToLineDistance_least:
  assumes "0 \<le> t" "t \<le> 1"
  shows "pointToLineDistance p a b \<le> euclid p (along a b t)"
proof -
  define u v c d where "u = px p - px a" and "v = py p - py a"
    and "c = px b - px a" and "d = py b - py a"
  define L dt where "L = c * c + d * d" and "dt = u * c + v * d"
  have rhs: "euclid p (along a b t) = sqrt ((u - t * c)\<^sup>2 + (v - t * d)\<^sup>2)"
    by (simp add: euclid_def along_def u_def v_def c_def d_def algebra_simps)
  have L0: "0 \<le> L" by (simp add: L_def)
  have lhs: "pointToLineDistance p a b =
    sqrt (if L = 0 \<or> dt / L < 0 then u * u + v * v
          else if dt / L > 1 then (u - c) * (u - c) + (v - d) * (v - d)
          else (u - dt / L * c) * (u - dt / L * c) + (v - dt / L * d) * (v - dt / L * d))"
  proof (cases "L = 0")
    case True
    then show ?thesis
      unfolding L_def dt_def u_def v_def c_def d_def
      by (simp add: pointToLineDistance_def Let_def)
  next
    case False
    then show ?thesis
      unfolding L_def dt_def u_def v_def c_def d_def
      by (simp add: pointToLineDistance_def Let_def diff_diff_eq[symmetric])
  qed
  have "(if L = 0 \<or> dt / L < 0 then u * u + v * v
          else if dt / L > 1 then (u - c) * (u - c) + (v - d) * (v - d)
          else (u - dt / L * c) * (u - dt / L * c) + (v - dt / L * d) * (v - dt / L * d))
        \<le> (u - t * c)\<^sup>2 + (v - t * d)\<^sup>2"
  proof (cases "L = 0")
    case True
    then have "c = 0" "d = 0" by (simp_all add: L_def)
    with True show ?thesis by (simp add: power2_eq_square)
  next
    case False
    with L0 have Lpos: "0 < L" by simp
    consider "dt / L < 0" | "dt / L > 1" | "0 \<le> dt / L \<and> dt / L \<le> 1" by linarith
    then show ?thesis
    proof cases
      case 1
      then have "dt \<le> 0" using Lpos by (simp add: divide_less_0_iff)
      then show ?thesis
        using 1 segment_sq_first[of t u c v d] assms by (auto simp add: dt_def)
    next
      case 2
      then have "L \<le> dt" using Lpos by (simp add: less_divide_eq)
      then show ?thesis
        using 2 False segment_sq_second[of t c d u v] assms by (auto simp add: dt_def L_def)
    next
      case 3
      then show ?thesis
        using False segment_sq_interior[of c d u v t] by (auto simp add: dt_def L_def)
    qed
  qed
  then show ?thesis unfolding lhs rhs by (rule real_sqrt_le_mono)
qed

section \<open>Auto-pan\<close>

text \<open>
  C9 as the specification states it fails where the two bands of an axis overlap: on a
  container 40 pixels wide with the default padding of 50, a pointer at x = 10 is within
  the padding of the left edge, and the map is panned by the speed to the right, not to
  the left.
\<close>

theorem autoPan_left_band_counterexample:
  "px \<lparr>px = 10, py = 500\<rparr> < fst (autoPanPadding default_options)
   \<and> autoPan (flat_map \<lparr>px = 40, py = 1000\<rparr>) default_options \<lparr>px = 10, py = 500\<rparr>
       = Some (autoPanSpeed default_options, 0)
   \<and> autoPanSpeed default_options \<noteq> - autoPanSpeed default_options"
  by (simp add: autoPan_def autoPan_offset_def default_options_def flat_map_def Let_def)

text \<open>
  C9, amended. On each axis, independently of the other: the offset is the speed when
  the pointer is within the padding of the right (bottom) edge; it is minus the speed
  when the pointer is within the padding of the left (top) edge and not within that of
  the right (bottom) edge; it is zero otherwise. The map is panned by the pair of the
  two offsets unless both are zero, so that no pan occurs when the pointer is in no
  band.
\<close>

theorem autoPan_edge_bands:
  assumes "autoPan_offset m os cp = (x, y)"
  shows "(px cp > px (getSize m) - fst (autoPanPadding os) \<longrightarrow> x = autoPanSpeed os)
    \<and> (px cp < fst (autoPanPadding os) \<and> \<not> px cp > px (getSize m) - fst (autoPanPadding os)
          \<longrightarrow> x = - autoPanSpeed os)
    \<and> (\<not> px cp < fst (autoPanPadding os) \<and> \<not> px cp > px (getSize m) - fst (autoPanPadding os)
          \<longrightarrow> x = 0)
    \<and> (py cp > py (getSize m) - snd (autoPanPadding os) \<longrightarrow> y = autoPanSpeed os)
    \<and> (py cp < snd (autoPanPadding os) \<and> \<not> py cp > py (getSize m) - snd (autoPanPadding os)
          \<longrightarrow> y = - autoPanSpeed os)
    \<and> (\<not> py cp < snd (autoPanPadding os) \<and> \<not> py cp > py (getSize m) - snd (autoPanPadding os)
          \<longrightarrow> y = 0)
    \<and> autoPan m os cp = (if x = 0 \<and> y = 0 then None else Some (x, y))"
  using assms
  by (auto simp add: autoPan_def autoPan_offset_def Let_def)

theorem autoPan_edge_bands_witness:
  "autoPan_offset (flat_map \<lparr>px = 800, py = 600\<rparr>) default_options \<lparr>px = 10, py = 590\<rparr>
      = (- 10, 10)
   \<and> autoPan (flat_map \<lparr>px = 800, py = 600\<rparr>) default_options \<lparr>px = 10, py = 590\<rparr>
      = Some (- 10, 10)
   \<and> autoPan (flat_map \<lparr>px = 800, py = 600\<rparr>) default_options \<lparr>px = 400, py = 300\<rparr>
      = None"
proof -
  have a: "autoPan_offset (flat_map \<lparr>px = 800, py = 600\<rparr>) default_options \<lparr>px = 10, py = 590\<rparr>
      = (- 10, 10)"
    by (simp add: autoPan_offset_def default_options_def flat_map_def Let_def)
  have b: "autoPan_offset (flat_map \<lparr>px = 800, py = 600\<rparr>) default_options \<lparr>px = 400, py = 300\<rparr>
      = (0, 0)"
    by (simp add: autoPan_offset_def default_options_def flat_map_def Let_def)
  show ?thesis
    using a autoPan_edge_bands[OF a] autoPan_edge_bands[OF b]
    by simp
qed

section \<open>Basic facts about the operations\<close>

lemma fold_removeLayer:
  "fold (\<lambda>node st. removeLayer (background node) (removeLayer (nid node) st)) ns s
     = s\<lparr>layers := fold (\<lambda>node ls. removeAll (background node) (removeAll (nid node) ls))
                       ns (layers s)\<rparr>"
  by (induction ns arbitrary: s) (simp_all add: removeLayer_def)

lemma removeTempLine_fields:
  "nodes (removeTempLine s) = nodes s"
  "shape (removeTempLine s) = shape s"
  "shapeType (removeTempLine s) = shapeType s"
  "isDrawing (removeTempLine s) = isDrawing s"
  "estate (removeTempLine s) = estate s"
  "opts (removeTempLine s) = opts s"
  "next_id (removeTempLine s) = next_id s"
  "events (removeTempLine s) = events s"
  "tempLine (removeTempLine s) = None"
  by (simp_all add: removeTempLine_def removeLayer_def split: option.split)

lemma clear_fields:
  "nodes (clear s) = []"
  "shape (clear s) = None"
  "shapeType (clear s) = shapeType s"
  "isDrawing (clear s) = True"
  "estate (clear s) = ''idle''"
  "opts (clear s) = opts s"
  "next_id (clear s) = next_id s"
  "tempLine (clear s) = None"
  "events (clear s) = events s @ [StateChange ''idle'']"
  by (simp_all add: clear_def fold_removeLayer Let_def fire_def removeTempLine_fields)
     (simp_all add: removeLayer_def split: option.split)

lemma startDrawing_fields:
  "nodes (startDrawing ty s) = []"
  "shape (startDrawing ty s) = None"
  "shapeType (startDrawing ty s) = Some ty"
  "isDrawing (startDrawing ty s) = True"
  "estate (startDrawing ty s) = ''drawing''"
  "opts (startDrawing ty s) = opts s"
  "tempLine (startDrawing ty s) = None"
  by (simp_all add: startDrawing_def Let_def fire_def clear_fields)

lemma createNode_fields:
  "nlatlng (fst (createNode ll s)) = ll"
  "nid (fst (createNode ll s)) = next_id s + 1"
  "background (fst (createNode ll s)) = next_id s"
  "nodes (snd (createNode ll s)) = nodes s"
  "shape (snd (createNode ll s)) = shape s"
  "shapeType (snd (createNode ll s)) = shapeType s"
  "isDrawing (snd (createNode ll s)) = isDrawing s"
  "estate (snd (createNode ll s)) = estate s"
  "opts (snd (createNode ll s)) = opts s"
  "tempLine (snd (createNode ll s)) = tempLine s"
  "next_id (snd (createNode ll s)) = next_id s + 2"
  "layers (snd (createNode ll s)) = layers s @ [next_id s, next_id s + 1]"
  by (simp_all add: createNode_def Let_def fire_def addTo_def)

lemma newShape_fields:
  "nodes (newShape g s) = nodes s"
  "shape (newShape g s) = Some \<lparr>sid = next_id s, geom = g\<rparr>"
  "shapeType (newShape g s) = shapeType s"
  "isDrawing (newShape g s) = isDrawing s"
  "estate (newShape g s) = estate s"
  "opts (newShape g s) = opts s"
  "tempLine (newShape g s) = tempLine s"
  by (simp_all add: newShape_def Let_def addTo_def)

lemma updateShape_fields:
  "nodes (updateShape m s) = nodes s"
  "shapeType (updateShape m s) = shapeType s"
  "isDrawing (updateShape m s) = isDrawing s"
  "estate (updateShape m s) = estate s"
  "opts (updateShape m s) = opts s"
  "tempLine (updateShape m s) = tempLine s"
  by (simp_all add: updateShape_def Let_def newShape_fields removeLayer_def split: option.split)

lemma finishDrawing_fields:
  "nodes (finishDrawing s) = nodes s"
  "shape (finishDrawing s) = shape s"
  "shapeType (finishDrawing s) = shapeType s"
  "isDrawing (finishDrawing s) = False"
  "estate (finishDrawing s) = ''idle''"
  "opts (finishDrawing s) = opts s"
  "tempLine (finishDrawing s) = None"
  by (simp_all add: finishDrawing_def Let_def fire_def removeTempLine_fields)

lemma fire_fields:
  "nodes (fire e s) = nodes s"
  "shape (fire e s) = shape s"
  "shapeType (fire e s) = shapeType s"
  "isDrawing (fire e s) = isDrawing s"
  "estate (fire e s) = estate s"
  "opts (fire e s) = opts s"
  "tempLine (fire e s) = tempLine s"
  "next_id (fire e s) = next_id s"
  "layers (fire e s) = layers s"
  by (simp_all add: fire_def)


lemmas field_simps_editor =
  removeTempLine_fields clear_fields startDrawing_fields createNode_fields newShape_fields
  updateShape_fields finishDrawing_fields fire_fields

lemma updateShape_geom:
  "map_option geom (shape (updateShape m s)) =
     (let latlngs = map nlatlng (nodes s)
      in if shapeType s = Some ''point'' \<and> length latlngs = 1 then Some Marker
         else if shapeType s = Some ''line'' \<and> length latlngs \<ge> 2 then Some (Polyline latlngs)
         else if shapeType s = Some ''polygon'' \<and> length latlngs \<ge> 3
           then Some (Polygon (latlngs @ [hd latlngs]))
         else if shapeType s = Some ''rectangle'' \<and> length latlngs \<ge> 2
           then Some (Rectangle (fst (latLngBounds latlngs)) (snd (latLngBounds latlngs)))
         else if shapeType s = Some ''circle'' \<and> length latlngs \<ge> 2
           then Some (Circle (latlngs ! 0) (latLngDistanceTo m (latlngs ! 0) (latlngs ! 1)))
         else map_option geom (shape s))"
  by (auto simp add: updateShape_def Let_def newShape_fields removeLayer_def split: option.split)

lemma idleInsertion_drawing: "isDrawing s \<Longrightarrow> idleInsertion m ll s = None"
  by (simp add: idleInsertion_def)

lemma onMapClick_append:
  assumes "isDrawing s"
    and "\<not> (shapeType s = Some ''point'' \<and> shape s = None)"
    and "\<not> (shapeType s = Some ''line'' \<and> length (nodes s) > 1
            \<and> pointDistanceTo m (latLngToContainerPoint m (nlatlng (last (nodes s))))
                  (latLngToContainerPoint m ll) \<le> nodeRadius (opts s) * 2)"
  defines "s2 \<equiv> (snd (createNode ll s))\<lparr>nodes := nodes s @ [fst (createNode ll s)]\<rparr>"
  defines "fin \<equiv> (shapeType s = Some ''polygon'' \<or> shapeType s = Some ''rectangle''
                     \<or> shapeType s = Some ''circle'')
                  \<and> length (nodes s) + 1 \<ge> (if shapeType s = Some ''polygon'' then 3 else 2)"
  shows "nodes (onMapClick m ll s) = nodes s @ [fst (createNode ll s)]"
    and "shape (onMapClick m ll s) = shape (updateShape m s2)"
    and "shapeType (onMapClick m ll s) = shapeType s"
    and "isDrawing (onMapClick m ll s) = (\<not> fin)"
    and "estate (onMapClick m ll s) = (if fin then ''idle'' else estate s)"
    and "opts (onMapClick m ll s) = opts s"
proof -
  have eq: "onMapClick m ll s =
      (let s4 = fire (NodeAdd (nid (fst (createNode ll s)))) (updateShape m s2)
       in if fin then finishDrawing s4 else s4)"
    using assms(1,2,3)
    by (auto simp add: onMapClick_def idleInsertion_drawing split_def Let_def s2_def fin_def
          field_simps_editor)
  show "nodes (onMapClick m ll s) = nodes s @ [fst (createNode ll s)]"
    and "shape (onMapClick m ll s) = shape (updateShape m s2)"
    and "shapeType (onMapClick m ll s) = shapeType s"
    and "isDrawing (onMapClick m ll s) = (\<not> fin)"
    and "estate (onMapClick m ll s) = (if fin then ''idle'' else estate s)"
    and "opts (onMapClick m ll s) = opts s"
    using assms(1)
    by (simp_all add: eq Let_def field_simps_editor s2_def)
qed

lemma getGeoJSON_coords:
  "getGeoJSON s =
    (if shape s = None then Inr JNull
     else
      (let coordinates = map (\<lambda>l. (lng l, lat l)) (map nlatlng (nodes s));
           arr = map (\<lambda>c. Pos (fst c) (snd c)) coordinates
       in if shapeType s = Some ''point'' then
            Inr (JObject \<lparr>gtype = Some ''Point'', coordinates = Position (at0 arr),
                          radius = None\<rparr>)
          else if shapeType s = Some ''line'' then
            Inr (JObject \<lparr>gtype = Some ''LineString'', coordinates = Positions arr,
                          radius = None\<rparr>)
          else if shapeType s = Some ''polygon'' then
            Inr (JObject \<lparr>gtype = Some ''Polygon'', coordinates = Rings [arr @ [at0 arr]],
                          radius = None\<rparr>)
          else if shapeType s = Some ''rectangle'' \<and> length coordinates = 2 then
            (let c0 = coordinates ! 0; c1 = coordinates ! 1
             in Inr (JObject \<lparr>gtype = Some ''Polygon'',
                      coordinates = Rings [[Pos (fst c0) (snd c0), Pos (fst c1) (snd c0),
                                             Pos (fst c1) (snd c1), Pos (fst c0) (snd c1),
                                             Pos (fst c0) (snd c0)]],
                      radius = None\<rparr>))
          else if shapeType s = Some ''circle'' \<and> length coordinates = 2 then
            Inl TypeError
          else Inr JUndefined))"
  by (simp add: getGeoJSON_def comp_def)

lemma two_clicks_state:
  assumes "ty = ''rectangle'' \<or> ty = ''circle''"
  shows "map nlatlng (nodes (two_clicks ty a b m s)) = [a, b]"
    and "shapeType (two_clicks ty a b m s) = Some ty"
    and "\<not> isDrawing (two_clicks ty a b m s)"
    and "estate (two_clicks ty a b m s) = ''idle''"
    and "map_option geom (shape (two_clicks ty a b m s)) =
           Some (if ty = ''rectangle''
                 then Rectangle (fst (latLngBounds [a, b])) (snd (latLngBounds [a, b]))
                 else Circle a (latLngDistanceTo m a b))"
proof -
  define s0 where "s0 = startDrawing ty s"
  define s1 where "s1 = onMapClick m a s0"
  have ty: "ty \<noteq> ''point''" "ty \<noteq> ''line''" "ty \<noteq> ''polygon''"
    using assms by auto
  have s0: "isDrawing s0" "shapeType s0 = Some ty" "nodes s0 = []"
    by (simp_all add: s0_def startDrawing_fields)
  have c0: "\<not> (shapeType s0 = Some ''point'' \<and> shape s0 = None)"
    "\<not> (shapeType s0 = Some ''line'' \<and> length (nodes s0) > 1
            \<and> pointDistanceTo m (latLngToContainerPoint m (nlatlng (last (nodes s0))))
                  (latLngToContainerPoint m a) \<le> nodeRadius (opts s0) * 2)"
    using ty by (simp_all add: s0)
  have s1: "isDrawing s1" "shapeType s1 = Some ty" "map nlatlng (nodes s1) = [a]"
    using onMapClick_append[OF s0(1) c0, of ] ty
    by (simp_all add: s1_def s0 createNode_fields)
  have c1: "\<not> (shapeType s1 = Some ''point'' \<and> shape s1 = None)"
    "\<not> (shapeType s1 = Some ''line'' \<and> length (nodes s1) > 1
            \<and> pointDistanceTo m (latLngToContainerPoint m (nlatlng (last (nodes s1))))
                  (latLngToContainerPoint m b) \<le> nodeRadius (opts s1) * 2)"
    using ty by (simp_all add: s1)
  have len1: "length (nodes s1) = 1"
    using s1(3) by (metis length_map length_Cons list.size(3) One_nat_def)
  have two: "two_clicks ty a b m s = onMapClick m b s1"
    by (simp add: two_clicks_def s1_def s0_def)
  note step = onMapClick_append[OF s1(1) c1]
  show "map nlatlng (nodes (two_clicks ty a b m s)) = [a, b]"
    by (simp add: two step(1) s1 createNode_fields)
  show "shapeType (two_clicks ty a b m s) = Some ty"
    by (simp add: two step(3) s1)
  show "\<not> isDrawing (two_clicks ty a b m s)"
    using assms by (auto simp add: two step(4) s1 len1)
  show "estate (two_clicks ty a b m s) = ''idle''"
    using assms by (auto simp add: two step(5) s1 len1)
  show "map_option geom (shape (two_clicks ty a b m s)) =
           Some (if ty = ''rectangle''
                 then Rectangle (fst (latLngBounds [a, b])) (snd (latLngBounds [a, b]))
                 else Circle a (latLngDistanceTo m a b))"
    using assms
    by (auto simp add: two step(2) updateShape_geom createNode_fields s1 len1 Let_def)
qed

lemma onMapClick_point:
  assumes "isDrawing s" and "shapeType s = Some ''point''" and "shape s = None"
  shows "nodes (onMapClick m ll s) = nodes s @ [fst (createNode ll s)]"
    and "shape (onMapClick m ll s) = Some \<lparr>sid = nid (fst (createNode ll s)), geom = Marker\<rparr>"
    and "shapeType (onMapClick m ll s) = shapeType s"
    and "\<not> isDrawing (onMapClick m ll s)"
    and "estate (onMapClick m ll s) = ''idle''"
  using assms
  by (simp_all add: onMapClick_def idleInsertion_drawing split_def Let_def field_simps_editor)

section \<open>The rectangle scenario\<close>

lemma rectangle_export:
  "getGeoJSON (two_clicks ''rectangle'' a b m s)
      = Inr (JObject \<lparr>gtype = Some ''Polygon'',
                coordinates = Rings [[Pos (lng a) (lat a), Pos (lng b) (lat a),
                                       Pos (lng b) (lat b), Pos (lng a) (lat b),
                                       Pos (lng a) (lat a)]],
                radius = None\<rparr>)"
proof -
  note st = two_clicks_state[of "''rectangle''" a b m s]
  have "shape (two_clicks ''rectangle'' a b m s) \<noteq> None"
    using st(5) by auto
  then show ?thesis
    by (simp add: getGeoJSON_coords st(1,2))
qed

text \<open>
  C4 as the specification states it, with each pair read as [lng, lat]: the second
  position of the ring would be longitude 10, latitude 20. The ring that
  \<^verbatim>\<open>getGeoJSON\<close> returns is another one.
\<close>

theorem rectangle_ring_counterexample:
  "getGeoJSON (two_clicks ''rectangle'' \<lparr>lat = 10, lng = 10\<rparr> \<lparr>lat = 20, lng = 20\<rparr>
                 (flat_map \<lparr>px = 800, py = 600\<rparr>) (initialize None))
     \<noteq> Inr (JObject \<lparr>gtype = Some ''Polygon'',
               coordinates = Rings [[Pos 10 10, Pos 10 20, Pos 20 20, Pos 20 10, Pos 10 10]],
               radius = None\<rparr>)"
  by (simp add: rectangle_export)

text \<open>
  C4, amended. From any state, after \<^verbatim>\<open>startDrawing('rectangle')\<close> and clicks at
  (lat 10, lng 10) and (lat 20, lng 20) the editor is idle and not drawing, and
  \<^verbatim>\<open>getGeoJSON\<close> returns a Polygon whose single ring is, as [lng, lat] pairs,
  [10,10], [20,10], [20,20], [10,20], [10,10]: the second position takes its longitude
  from the second click and its latitude from the first.
\<close>

theorem rectangle_scenario:
  "estate (two_clicks ''rectangle'' \<lparr>lat = 10, lng = 10\<rparr> \<lparr>lat = 20, lng = 20\<rparr> m s) = ''idle''
   \<and> \<not> isDrawing (two_clicks ''rectangle'' \<lparr>lat = 10, lng = 10\<rparr> \<lparr>lat = 20, lng = 20\<rparr> m s)
   \<and> getGeoJSON (two_clicks ''rectangle'' \<lparr>lat = 10, lng = 10\<rparr> \<lparr>lat = 20, lng = 20\<rparr> m s)
      = Inr (JObject \<lparr>gtype = Some ''Polygon'',
                coordinates = Rings [[Pos 10 10, Pos 20 10, Pos 20 20, Pos 10 20, Pos 10 10]],
                radius = None\<rparr>)"
  using two_clicks_state(3,4)[of "''rectangle''" "\<lparr>lat = 10, lng = 10\<rparr>" "\<lparr>lat = 20, lng = 20\<rparr>" m s]
  by (simp add: rectangle_export)

section \<open>The circle scenario\<close>

text \<open>
  C2. From any state, after \<^verbatim>\<open>startDrawing('circle')\<close> and clicks at the center
  (0,0) and at (0,1) the circle is on the map, its radius being the distance between
  the two nodes, and \<^verbatim>\<open>getGeoJSON\<close> does not return an object with that radius: it
  throws a TypeError.
\<close>

theorem circle_export_throws:
  "getGeoJSON (two_clicks ''circle'' \<lparr>lat = 0, lng = 0\<rparr> \<lparr>lat = 0, lng = 1\<rparr> m s) = Inl TypeError
   \<and> map nlatlng (nodes (two_clicks ''circle'' \<lparr>lat = 0, lng = 0\<rparr> \<lparr>lat = 0, lng = 1\<rparr> m s))
       = [\<lparr>lat = 0, lng = 0\<rparr>, \<lparr>lat = 0, lng = 1\<rparr>]
   \<and> map_option geom (shape (two_clicks ''circle'' \<lparr>lat = 0, lng = 0\<rparr> \<lparr>lat = 0, lng = 1\<rparr> m s))
       = Some (Circle \<lparr>lat = 0, lng = 0\<rparr>
                 (latLngDistanceTo m \<lparr>lat = 0, lng = 0\<rparr> \<lparr>lat = 0, lng = 1\<rparr>))"
proof -
  note st = two_clicks_state[of "''circle''" "\<lparr>lat = 0, lng = 0\<rparr>" "\<lparr>lat = 0, lng = 1\<rparr>" m s]
  have "shape (two_clicks ''circle'' \<lparr>lat = 0, lng = 0\<rparr> \<lparr>lat = 0, lng = 1\<rparr> m s) \<noteq> None"
    using st(5) by auto
  then show ?thesis
    using st(5) by (simp add: getGeoJSON_coords st(1,2))
qed

section \<open>Clearing\<close>

text \<open>
  C3. After \<^verbatim>\<open>clear()\<close> from any state the field \<^verbatim>\<open>state\<close> is idle and there
  is neither shape nor node, but \<^verbatim>\<open>isDrawing\<close> is true, and the next click on the
  map, wherever it is and whatever the shape type, creates a node at the click.
\<close>

theorem click_after_clear_creates_node:
  "estate (clear s) = ''idle'' \<and> shape (clear s) = None \<and> nodes (clear s) = []
   \<and> isDrawing (clear s)
   \<and> map nlatlng (nodes (onMapClick m ll (clear s))) = [ll]"
proof -
  have d: "isDrawing (clear s)" by (simp add: clear_fields)
  have "map nlatlng (nodes (onMapClick m ll (clear s))) = [ll]"
  proof (cases "shapeType s = Some ''point''")
    case True
    then show ?thesis
      using onMapClick_point(1)[OF d, of m ll]
      by (simp add: clear_fields createNode_fields)
  next
    case False
    then show ?thesis
      using onMapClick_append(1)[OF d, of m ll]
      by (simp add: clear_fields createNode_fields)
  qed
  then show ?thesis by (simp add: clear_fields)
qed

section \<open>The secondary action on a node\<close>

lemma indexOf_range:
  "n \<in> set ns \<Longrightarrow> 0 \<le> indexOf ns (nid n) \<and> indexOf ns (nid n) < int (length ns)"
  by (induction ns) (auto simp add: Let_def)

lemma splice_js_indexOf:
  assumes "distinct (map nid ns)" and "node \<in> set ns"
  shows "splice_js (indexOf ns (nid node)) 1 [] ns = remove1 node ns"
  using assms
proof (induction ns)
  case Nil
  then show ?case by simp
next
  case (Cons n ns)
  show ?case
  proof (cases "nid n = nid node")
    case True
    then have "n = node"
      using Cons.prems by (auto simp add: image_iff)
    then show ?thesis by (simp add: splice_js_def)
  next
    case False
    then have mem: "node \<in> set ns" and ne: "n \<noteq> node"
      using Cons.prems by auto
    have d: "distinct (map nid ns)" using Cons.prems by simp
    note r = indexOf_range[OF mem]
    have "splice_js (indexOf ns (nid node) + 1) 1 [] (n # ns)
            = n # splice_js (indexOf ns (nid node)) 1 [] ns"
      using r by (simp add: splice_js_def Let_def nat_add_distrib min_def)
    then show ?thesis
      using False ne r Cons.IH[OF d mem] by (simp add: Let_def)
  qed
qed

text \<open>
  For a line, a polygon, a rectangle and a circle the handler does what section 4.2 of
  the specification says: at the minimum of the type it clears the editor, and above it
  it removes the node on which it was called, and the node and its halo leave the map.
\<close>

lemma contextmenu_at_minimum:
  assumes "shapeType s = Some ''line'' \<or> shapeType s = Some ''polygon''
             \<or> shapeType s = Some ''rectangle'' \<or> shapeType s = Some ''circle''"
    and "length (nodes s) = (if shapeType s = Some ''polygon'' then 3 else 2)"
  shows "onNodeContextMenu m node s = clear s"
  using assms by (auto simp add: onNodeContextMenu_def)

lemma updateShape_layers:
  "set (layers (updateShape m s)) \<subseteq> insert (next_id s) (set (layers s))"
  by (auto simp add: updateShape_def Let_def newShape_def addTo_def removeLayer_def
        split: option.splits if_splits list.splits)

lemma contextmenu_above_minimum:
  assumes "length (nodes s) > (if shapeType s = Some ''polygon'' then 3 else 2)"
    and "node \<in> set (nodes s)" and "distinct (map nid (nodes s))"
  shows "nodes (onNodeContextMenu m node s) = remove1 node (nodes s)"
    and "shapeType (onNodeContextMenu m node s) = shapeType s"
    and "nid node < next_id s \<Longrightarrow> nid node \<notin> set (layers (onNodeContextMenu m node s))"
    and "background node < next_id s
           \<Longrightarrow> background node \<notin> set (layers (onNodeContextMenu m node s))"
proof -
  define s3 where "s3 = removeLayer (background node) (removeLayer (nid node)
                          (s\<lparr>nodes := remove1 node (nodes s)\<rparr>))"
  have eq: "onNodeContextMenu m node s = fire (NodeRemove (nid node)) (updateShape m s3)"
    using assms(1)
    by (auto simp add: onNodeContextMenu_def Let_def splice_js_indexOf[OF assms(3,2), unfolded One_nat_def] s3_def)
  have l3: "nid node \<notin> set (layers s3)" "background node \<notin> set (layers s3)"
    and n3: "next_id s3 = next_id s" "nodes s3 = remove1 node (nodes s)" "shapeType s3 = shapeType s"
    by (simp_all add: s3_def removeLayer_def)
  show "nodes (onNodeContextMenu m node s) = remove1 node (nodes s)"
    by (simp add: eq field_simps_editor n3)
  show "shapeType (onNodeContextMenu m node s) = shapeType s"
    by (simp add: eq field_simps_editor n3)
  show "nid node \<notin> set (layers (onNodeContextMenu m node s))" if "nid node < next_id s"
    using that updateShape_layers[of m s3] l3 n3 by (auto simp add: eq field_simps_editor)
  show "background node \<notin> set (layers (onNodeContextMenu m node s))" if "background node < next_id s"
    using that updateShape_layers[of m s3] l3 n3 by (auto simp add: eq field_simps_editor)
qed

text \<open>
  C5. A point drawn with one click has one node, which is its minimum. The secondary
  action on that node leaves the editor as it is: the shape is not removed, where
  \<^verbatim>\<open>clear()\<close> would leave no node.
\<close>

theorem contextmenu_on_point_does_nothing:
  "length (nodes (point_run ll m s)) = 1
   \<and> shapeType (point_run ll m s) = Some ''point''
   \<and> shape (point_run ll m s) \<noteq> None
   \<and> onNodeContextMenu m (hd (nodes (point_run ll m s))) (point_run ll m s) = point_run ll m s
   \<and> nodes (clear (point_run ll m s)) \<noteq> nodes (point_run ll m s)"
proof -
  have d: "isDrawing (startDrawing ''point'' s)"
    "shapeType (startDrawing ''point'' s) = Some ''point''"
    "shape (startDrawing ''point'' s) = None"
    by (simp_all add: startDrawing_fields)
  note st = onMapClick_point[OF d, of m ll]
  have n: "length (nodes (point_run ll m s)) = 1"
    by (simp add: point_run_def st(1) startDrawing_fields)
  have ty: "shapeType (point_run ll m s) = Some ''point''"
    by (simp add: point_run_def st(3) startDrawing_fields)
  have sh: "shape (point_run ll m s) \<noteq> None"
    by (simp add: point_run_def st(2))
  have same: "onNodeContextMenu m nd (point_run ll m s) = point_run ll m s" for nd
    by (simp add: onNodeContextMenu_def n ty)
  have "nodes (point_run ll m s) \<noteq> []"
    using n by auto
  then show ?thesis
    using n ty sh same by (simp add: clear_fields)
qed

section \<open>Import of an unknown GeoJSON type\<close>

text \<open>
  C10. When the type member of the GeoJSON object is present (truthy, as line 503 tests
  it: a string that is not empty) and is none of Point, LineString and Polygon,
  \<^verbatim>\<open>drawFromGeoJSON\<close> returns with the editor cleared: no node, no shape, no layer
  and no event beyond those of \<^verbatim>\<open>clear()\<close>. The shape type is the lower-cased type
  member, whatever it was before the call.
\<close>

theorem drawFromGeoJSON_unknown_type:
  assumes "gtype g = Some t" and "t \<noteq> []"
    and "t \<noteq> ''Point''" and "t \<noteq> ''LineString''" and "t \<noteq> ''Polygon''"
  shows "\<exists>s'. drawFromGeoJSON m (JObject g) ov s = Inr s'
     \<and> nodes s' = [] \<and> shape s' = None
     \<and> shapeType s' = Some (toLowerCase t)
     \<and> layers s' = layers (clear s) \<and> next_id s' = next_id (clear s)
     \<and> events s' = events (clear s)"
  using assms
  by (cases ov) (simp_all add: drawFromGeoJSON_def importSwitch_def clear_fields Let_def)

theorem drawFromGeoJSON_unknown_type_witness:
  "shapeType (startDrawing ''polygon'' (initialize None)) = Some ''polygon''
   \<and> \<not> isl (drawFromGeoJSON (flat_map \<lparr>px = 800, py = 600\<rparr>)
              (JObject \<lparr>gtype = Some ''MultiPoint'', coordinates = Positions [], radius = None\<rparr>)
              None (startDrawing ''polygon'' (initialize None)))
   \<and> shapeType (projr (drawFromGeoJSON (flat_map \<lparr>px = 800, py = 600\<rparr>)
              (JObject \<lparr>gtype = Some ''MultiPoint'', coordinates = Positions [], radius = None\<rparr>)
              None (startDrawing ''polygon'' (initialize None)))) = Some ''multipoint''
   \<and> nodes (projr (drawFromGeoJSON (flat_map \<lparr>px = 800, py = 600\<rparr>)
              (JObject \<lparr>gtype = Some ''MultiPoint'', coordinates = Positions [], radius = None\<rparr>)
              None (startDrawing ''polygon'' (initialize None)))) = []"
proof -
  have low: "toLowerCase ''MultiPoint'' = ''multipoint''"
    by code_simp
  obtain s' where
    "drawFromGeoJSON (flat_map \<lparr>px = 800, py = 600\<rparr>)
        (JObject \<lparr>gtype = Some ''MultiPoint'', coordinates = Positions [], radius = None\<rparr>)
        None (startDrawing ''polygon'' (initialize None)) = Inr s'"
    and "nodes s' = []" and "shapeType s' = Some (toLowerCase ''MultiPoint'')"
    using drawFromGeoJSON_unknown_type
            [of "\<lparr>gtype = Some ''MultiPoint'', coordinates = Positions [], radius = None\<rparr>"
                "''MultiPoint''" "flat_map \<lparr>px = 800, py = 600\<rparr>" None
                "startDrawing ''polygon'' (initialize None)"]
    by auto
  then show ?thesis
    by (simp add: low startDrawing_fields)
qed

section \<open>Insertion of a node on an idle shape\<close>

lemma canAdd_iff:
  "canAdd m r cp ns \<longleftrightarrow>
     (\<forall>n \<in> set ns. r * 2 < pointDistanceTo m cp (latLngToContainerPoint m (nlatlng n)))"
  by (induction ns) (auto simp add: Let_def)

lemma Min_insert_min:
  fixes d x :: real
  assumes "finite S"
  shows "Min (insert (min d x) S) = Min (insert d (insert x S))"
proof (cases "S = {}")
  case True
  then show ?thesis by simp
next
  case False
  then show ?thesis using assms by (simp add: min.assoc)
qed

lemma nearest_step_fst:
  "fst (nearest_step m cp ns i acc) =
     Some (case fst acc of
             None \<Rightarrow> pointToLineDistance cp (fst (segment_at m ns i)) (snd (segment_at m ns i))
           | Some d \<Rightarrow> min d (pointToLineDistance cp (fst (segment_at m ns i)) (snd (segment_at m ns i))))"
  by (auto simp add: nearest_step_def Let_def split_def min_def split: option.split)

lemma fold_nearest_step:
  "fst (fold (nearest_step m cp ns) is acc) =
     (case fst acc of
        None \<Rightarrow> if is = [] then None
                else Some (Min (set (map (\<lambda>i. pointToLineDistance cp (fst (segment_at m ns i))
                                                  (snd (segment_at m ns i))) is)))
      | Some d \<Rightarrow> Some (Min (insert d (set (map (\<lambda>i. pointToLineDistance cp
                                 (fst (segment_at m ns i)) (snd (segment_at m ns i))) is)))))"
proof (induction "is" arbitrary: acc)
  case Nil
  then show ?case by (simp split: option.split)
next
  case (Cons i "is")
  show ?case
    by (simp add: Cons.IH nearest_step_fst Min_insert_min split: option.split)
qed

lemma nearest_segment_min:
  assumes "ns \<noteq> []"
  shows "fst (nearest_segment m cp ns) = Some (Min (set (candidate_distances m cp ns)))"
  using assms
  by (simp add: nearest_segment_def candidate_distances_def fold_nearest_step)

lemma length_splice_insert: "length (splice_js k 0 [x] xs) = length xs + 1"
  by (simp add: splice_js_def Let_def)

lemma idleInsertion_Some_iff:
  "(idleInsertion m ll s \<noteq> None) =
     (\<not> isDrawing s
      \<and> (shapeType s = Some ''polygon'' \<or> shapeType s = Some ''line'')
      \<and> (if shapeType s = Some ''polygon'' then 3 else 2) \<le> length (nodes s)
      \<and> (\<forall>n \<in> set (nodes s).
            nodeRadius (opts s) * 2
              < pointDistanceTo m (latLngToContainerPoint m ll)
                  (latLngToContainerPoint m (nlatlng n)))
      \<and> Min (set (candidate_distances m (latLngToContainerPoint m ll) (nodes s)))
            \<le> nodeRadius (opts s) * 2)"
proof (cases "\<not> isDrawing s
      \<and> (shapeType s = Some ''polygon'' \<or> shapeType s = Some ''line'')
      \<and> (if shapeType s = Some ''polygon'' then 3 else 2) \<le> length (nodes s)")
  case False
  then show ?thesis by (auto simp add: idleInsertion_def)
next
  case True
  then have ne: "nodes s \<noteq> []" by (auto split: if_splits)
  obtain i where near: "nearest_segment m (latLngToContainerPoint m ll) (nodes s)
      = (Some (Min (set (candidate_distances m (latLngToContainerPoint m ll) (nodes s)))), i)"
    using nearest_segment_min[OF ne, of m "latLngToContainerPoint m ll"]
    by (metis prod.collapse)
  show ?thesis
    using True
    by (simp add: idleInsertion_def Let_def canAdd_iff near split_def)
qed

lemma idleInsertion_result:
  assumes "idleInsertion m ll s = Some s'"
  shows "length (nodes s') = length (nodes s) + 1" and "onMapClick m ll s = s'"
proof -
  show "onMapClick m ll s = s'" using assms by (simp add: onMapClick_def)
  show "length (nodes s') = length (nodes s) + 1"
    using assms
    by (auto simp add: idleInsertion_def Let_def split_def field_simps_editor length_splice_insert
          split: if_splits)
qed

text \<open>
  What the first block of \<^verbatim>\<open>_onMapClick\<close> does, in terms of the segments of its own
  loop: it inserts a node exactly when the editor is not drawing, the shape is a polygon
  or a line with its minimum of nodes, every node is farther than \<open>2 * nodeRadius\<close>
  pixels from the click, and the least of the distances that the loop compares is at
  most \<open>2 * nodeRadius\<close>. When it inserts, the node list grows by one; when it does not
  and the editor is not drawing, the click changes nothing.
\<close>

lemma idleInsertion_when:
  "(idleInsertion m ll s \<noteq> None) =
     (\<not> isDrawing s
      \<and> (shapeType s = Some ''polygon'' \<or> shapeType s = Some ''line'')
      \<and> (if shapeType s = Some ''polygon'' then 3 else 2) \<le> length (nodes s)
      \<and> (\<forall>n \<in> set (nodes s).
            nodeRadius (opts s) * 2
              < pointDistanceTo m (latLngToContainerPoint m ll)
                  (latLngToContainerPoint m (nlatlng n)))
      \<and> Min (set (candidate_distances m (latLngToContainerPoint m ll) (nodes s)))
            \<le> nodeRadius (opts s) * 2)
   \<and> (\<forall>s'. idleInsertion m ll s = Some s' \<longrightarrow>
          length (nodes s') = length (nodes s) + 1 \<and> onMapClick m ll s = s')
   \<and> (\<not> isDrawing s \<and> idleInsertion m ll s = None \<longrightarrow> onMapClick m ll s = s)"
  using idleInsertion_Some_iff[of m ll s] idleInsertion_result[of m ll s]
  by (simp add: onMapClick_def)


text \<open>
  For a polygon the segments of the loop are the candidate segments of the
  specification, closing edge included, so that the block inserts a node exactly when
  every node is farther than \<open>2 * nodeRadius\<close> pixels from the click and the nearest
  edge of the polygon is at most \<open>2 * nodeRadius\<close> pixels away.
\<close>

lemma loop_pairs_wrap:
  assumes "ns \<noteq> []"
  shows "map (\<lambda>i. (ns ! i, ns ! ((i + 1) mod length ns))) [0..<length ns]
           = zip ns (tl ns) @ [(last ns, hd ns)]"
proof -
  obtain k where k: "length ns = Suc k"
    using assms by (cases ns) auto
  have front: "map (\<lambda>i. (ns ! i, ns ! ((i + 1) mod length ns))) [0..<k] = zip ns (tl ns)"
  proof (rule nth_equalityI)
    show "length (map (\<lambda>i. (ns ! i, ns ! ((i + 1) mod length ns))) [0..<k])
            = length (zip ns (tl ns))"
      by (simp add: k)
  next
    fix i
    assume "i < length (map (\<lambda>i. (ns ! i, ns ! ((i + 1) mod length ns))) [0..<k])"
    then have i: "i < k" by simp
    then show "map (\<lambda>i. (ns ! i, ns ! ((i + 1) mod length ns))) [0..<k] ! i
                 = zip ns (tl ns) ! i"
      by (simp add: k nth_tl)
  qed
  have closing: "(ns ! k, ns ! ((k + 1) mod length ns)) = (last ns, hd ns)"
    using assms by (simp add: k last_conv_nth hd_conv_nth)
  show ?thesis
    using front closing by (simp add: k)
qed

lemma candidate_distances_polygon:
  assumes "ns \<noteq> []"
  shows "candidate_distances m cp ns = spec_candidate_distances m cp (Some ''polygon'') ns"
proof -
  have "candidate_distances m cp ns
      = map (\<lambda>(a, b). pointToLineDistance cp (latLngToContainerPoint m (nlatlng a))
                         (latLngToContainerPoint m (nlatlng b)))
          (map (\<lambda>i. (ns ! i, ns ! ((i + 1) mod length ns))) [0..<length ns])"
    by (simp add: candidate_distances_def segment_at_def comp_def)
  also have "\<dots>
      = map (\<lambda>(a, b). pointToLineDistance cp (latLngToContainerPoint m (nlatlng a))
                         (latLngToContainerPoint m (nlatlng b)))
          (zip ns (tl ns) @ [(last ns, hd ns)])"
    by (simp only: loop_pairs_wrap[OF assms])
  also have "\<dots> = spec_candidate_distances m cp (Some ''polygon'') ns"
    using assms by (simp add: spec_candidate_distances_def consecutive_pairs_def)
  finally show ?thesis .
qed

lemma idleInsertion_polygon:
  assumes "shapeType s = Some ''polygon''"
  shows "(idleInsertion m ll s \<noteq> None) =
     (\<not> isDrawing s \<and> 3 \<le> length (nodes s)
      \<and> (\<forall>n \<in> set (nodes s).
            nodeRadius (opts s) * 2
              < pointDistanceTo m (latLngToContainerPoint m ll)
                  (latLngToContainerPoint m (nlatlng n)))
      \<and> Min (set (spec_candidate_distances m (latLngToContainerPoint m ll) (shapeType s) (nodes s)))
            \<le> nodeRadius (opts s) * 2)"
proof (cases "nodes s = []")
  case True
  then show ?thesis using assms by (simp add: idleInsertion_def)
next
  case False
  show ?thesis
    using assms candidate_distances_polygon[OF False, of m "latLngToContainerPoint m ll"]
    by (simp add: idleInsertion_Some_iff del: not_None_eq)
qed

section \<open>A line and a polygon on three nodes\<close>

lemma sqrt_values:
  "sqrt 900 = 30" "sqrt 1600 = 40" "sqrt 2500 = 50" "sqrt 6400 = 80" "sqrt 3600 = 60"
  "sqrt 10000 = 100"
  by (rule real_sqrt_unique; simp)+

lemma upt3: "[0..<3] = [0, 1, 2]"
  by (simp add: upt_rec)

lemma triangle_line_state:
  "map nlatlng (nodes (triangle_run ''line'' (flat_map sz) (initialize None))) =
     [\<lparr>lat = 0, lng = 0\<rparr>, \<lparr>lat = 0, lng = 60\<rparr>, \<lparr>lat = 80, lng = 60\<rparr>]"
  "\<not> isDrawing (triangle_run ''line'' (flat_map sz) (initialize None))"
  "shapeType (triangle_run ''line'' (flat_map sz) (initialize None)) = Some ''line''"
  "nodeRadius (opts (triangle_run ''line'' (flat_map sz) (initialize None))) = 6"
  "map_option geom (shape (triangle_run ''line'' (flat_map sz) (initialize None)))
      = Some (Polyline [\<lparr>lat = 0, lng = 0\<rparr>, \<lparr>lat = 0, lng = 60\<rparr>, \<lparr>lat = 80, lng = 60\<rparr>])"
  by (simp_all add: triangle_run_def initialize_def default_options_def startDrawing_def clear_def
        onMapClick_def idleInsertion_def createNode_def fire_def addTo_def updateShape_def
        newShape_def removeLayer_def finishDrawing_def removeTempLine_def Let_def
        flat_map_def flat_projection_def euclid_def sqrt_values)

lemma triangle_polygon_state:
  "map nlatlng (nodes (triangle_run ''polygon'' (flat_map sz) (initialize None))) =
     [\<lparr>lat = 0, lng = 0\<rparr>, \<lparr>lat = 0, lng = 60\<rparr>, \<lparr>lat = 80, lng = 60\<rparr>]"
  "\<not> isDrawing (triangle_run ''polygon'' (flat_map sz) (initialize None))"
  "shapeType (triangle_run ''polygon'' (flat_map sz) (initialize None)) = Some ''polygon''"
  "nodeRadius (opts (triangle_run ''polygon'' (flat_map sz) (initialize None))) = 6"
  "map_option geom (shape (triangle_run ''polygon'' (flat_map sz) (initialize None)))
      = Some (Polygon [\<lparr>lat = 0, lng = 0\<rparr>, \<lparr>lat = 0, lng = 60\<rparr>, \<lparr>lat = 80, lng = 60\<rparr>,
                       \<lparr>lat = 0, lng = 0\<rparr>])"
  by (simp_all add: triangle_run_def initialize_def default_options_def startDrawing_def clear_def
        onMapClick_def idleInsertion_def createNode_def fire_def addTo_def updateShape_def
        newShape_def removeLayer_def finishDrawing_def removeTempLine_def Let_def
        flat_map_def flat_projection_def euclid_def sqrt_values)


lemma triangle_nodes:
  assumes "map nlatlng ns = [\<lparr>lat = 0, lng = 0\<rparr>, \<lparr>lat = 0, lng = 60\<rparr>, \<lparr>lat = 80, lng = 60\<rparr>]"
  obtains n0 n1 n2 where "ns = [n0, n1, n2]"
    and "nlatlng n0 = \<lparr>lat = 0, lng = 0\<rparr>"
    and "nlatlng n1 = \<lparr>lat = 0, lng = 60\<rparr>"
    and "nlatlng n2 = \<lparr>lat = 80, lng = 60\<rparr>"
  using assms by (auto simp add: map_eq_Cons_conv)

lemma click_projection:
  "latLngToContainerPoint (flat_map sz) \<lparr>lat = 40, lng = 30\<rparr> = \<lparr>px = 30, py = 40\<rparr>"
  by (simp add: flat_map_def flat_projection_def)

lemma triangle_candidates:
  assumes "map nlatlng ns = [\<lparr>lat = 0, lng = 0\<rparr>, \<lparr>lat = 0, lng = 60\<rparr>, \<lparr>lat = 80, lng = 60\<rparr>]"
  shows "candidate_distances (flat_map sz) \<lparr>px = 30, py = 40\<rparr> ns = [40, 30, 0]"
proof -
  obtain n0 n1 n2 where ns: "ns = [n0, n1, n2]"
    and ll: "nlatlng n0 = \<lparr>lat = 0, lng = 0\<rparr>" "nlatlng n1 = \<lparr>lat = 0, lng = 60\<rparr>"
      "nlatlng n2 = \<lparr>lat = 80, lng = 60\<rparr>"
    using assms by (rule triangle_nodes)
  show ?thesis
    unfolding ns
    by (simp add: candidate_distances_def segment_at_def upt3 flat_map_def ll
          flat_projection_def pointToLineDistance_def Let_def sqrt_values)
qed

lemma triangle_nearest:
  assumes "map nlatlng ns = [\<lparr>lat = 0, lng = 0\<rparr>, \<lparr>lat = 0, lng = 60\<rparr>, \<lparr>lat = 80, lng = 60\<rparr>]"
  shows "nearest_segment (flat_map sz) \<lparr>px = 30, py = 40\<rparr> ns = (Some 0, 3)"
proof -
  obtain n0 n1 n2 where ns: "ns = [n0, n1, n2]"
    and ll: "nlatlng n0 = \<lparr>lat = 0, lng = 0\<rparr>" "nlatlng n1 = \<lparr>lat = 0, lng = 60\<rparr>"
      "nlatlng n2 = \<lparr>lat = 80, lng = 60\<rparr>"
    using assms by (rule triangle_nodes)
  show ?thesis
    unfolding ns
    by (simp add: nearest_segment_def nearest_step_def segment_at_def upt3 flat_map_def ll
          flat_projection_def pointToLineDistance_def Let_def sqrt_values)
qed

lemma triangle_nodes_far:
  assumes "map nlatlng ns = [\<lparr>lat = 0, lng = 0\<rparr>, \<lparr>lat = 0, lng = 60\<rparr>, \<lparr>lat = 80, lng = 60\<rparr>]"
  shows "map (\<lambda>n. pointDistanceTo (flat_map sz) \<lparr>px = 30, py = 40\<rparr>
                (latLngToContainerPoint (flat_map sz) (nlatlng n))) ns = [50, 50, 50]"
proof -
  obtain n0 n1 n2 where ns: "ns = [n0, n1, n2]"
    and ll: "nlatlng n0 = \<lparr>lat = 0, lng = 0\<rparr>" "nlatlng n1 = \<lparr>lat = 0, lng = 60\<rparr>"
      "nlatlng n2 = \<lparr>lat = 80, lng = 60\<rparr>"
    using assms by (rule triangle_nodes)
  show ?thesis
    unfolding ns
    by (simp add: flat_map_def ll flat_projection_def euclid_def sqrt_values)
qed

lemma triangle_canAdd:
  assumes "map nlatlng ns = [\<lparr>lat = 0, lng = 0\<rparr>, \<lparr>lat = 0, lng = 60\<rparr>, \<lparr>lat = 80, lng = 60\<rparr>]"
  shows "canAdd (flat_map sz) 6 \<lparr>px = 30, py = 40\<rparr> ns"
proof -
  have "\<forall>d \<in> set (map (\<lambda>n. pointDistanceTo (flat_map sz) \<lparr>px = 30, py = 40\<rparr>
                (latLngToContainerPoint (flat_map sz) (nlatlng n))) ns). 12 < d"
    unfolding triangle_nodes_far[OF assms] by simp
  then show ?thesis by (simp add: canAdd_iff)
qed

lemma triangle_insertion:
  assumes ns: "map nlatlng (nodes s)
                 = [\<lparr>lat = 0, lng = 0\<rparr>, \<lparr>lat = 0, lng = 60\<rparr>, \<lparr>lat = 80, lng = 60\<rparr>]"
    and idle: "\<not> isDrawing s"
    and ty: "shapeType s = Some ''polygon'' \<or> shapeType s = Some ''line''"
    and r: "nodeRadius (opts s) = 6"
  shows "map nlatlng (nodes (onMapClick (flat_map sz) \<lparr>lat = 40, lng = 30\<rparr> s))
           = [\<lparr>lat = 0, lng = 0\<rparr>, \<lparr>lat = 0, lng = 60\<rparr>, \<lparr>lat = 80, lng = 60\<rparr>,
              \<lparr>lat = 40, lng = 30\<rparr>]"
    and "shapeType (onMapClick (flat_map sz) \<lparr>lat = 40, lng = 30\<rparr> s) = shapeType s"
    and "shape (onMapClick (flat_map sz) \<lparr>lat = 40, lng = 30\<rparr> s) \<noteq> None"
proof -
  have len: "length (nodes s) = 3"
    using arg_cong[where f = length, OF ns] by simp
  define nd where "nd = fst (createNode \<lparr>lat = 40, lng = 30\<rparr> s)"
  define s2 where "s2 = (snd (createNode \<lparr>lat = 40, lng = 30\<rparr> s))
                           \<lparr>nodes := splice_js 3 0 [nd] (nodes s)\<rparr>"
  have ins: "idleInsertion (flat_map sz) \<lparr>lat = 40, lng = 30\<rparr> s
     = Some (fire (NodeAdd (nid nd)) (updateShape (flat_map sz) s2))"
    using ty idle
    by (auto simp add: idleInsertion_def r len click_projection triangle_canAdd[OF ns]
          triangle_nearest[OF ns] split_def Let_def field_simps_editor nd_def s2_def)
  have click: "onMapClick (flat_map sz) \<lparr>lat = 40, lng = 30\<rparr> s
     = fire (NodeAdd (nid nd)) (updateShape (flat_map sz) s2)"
    by (simp add: onMapClick_def ins)
  have n2: "map nlatlng (nodes s2) = [\<lparr>lat = 0, lng = 0\<rparr>, \<lparr>lat = 0, lng = 60\<rparr>,
      \<lparr>lat = 80, lng = 60\<rparr>, \<lparr>lat = 40, lng = 30\<rparr>]"
    using ns by (simp add: s2_def splice_js_def len nd_def createNode_fields)
  have t2: "shapeType s2 = shapeType s"
    by (simp add: s2_def createNode_fields)
  show "map nlatlng (nodes (onMapClick (flat_map sz) \<lparr>lat = 40, lng = 30\<rparr> s))
           = [\<lparr>lat = 0, lng = 0\<rparr>, \<lparr>lat = 0, lng = 60\<rparr>, \<lparr>lat = 80, lng = 60\<rparr>,
              \<lparr>lat = 40, lng = 30\<rparr>]"
    by (simp add: click field_simps_editor n2)
  show "shapeType (onMapClick (flat_map sz) \<lparr>lat = 40, lng = 30\<rparr> s) = shapeType s"
    by (simp add: click field_simps_editor t2)
  have "map_option geom (shape (updateShape (flat_map sz) s2)) \<noteq> None"
    using ty by (auto simp add: updateShape_geom n2 t2 Let_def)
  then show "shape (onMapClick (flat_map sz) \<lparr>lat = 40, lng = 30\<rparr> s) \<noteq> None"
    by (simp add: click field_simps_editor)
qed


text \<open>
  C6. A line drawn through (0,0), (60,0) and (60,80), in pixels, is an open polyline of
  two segments. A click at (30,40) is 40 and 30 pixels away from these two segments and
  50 pixels from every node, and it lies on the segment from the last node back to the
  first, which the loop also takes as a candidate: the click appends a fourth node to
  the line.
\<close>

theorem line_closing_segment_insertion:
  "shapeType (triangle_run ''line'' (flat_map \<lparr>px = 800, py = 600\<rparr>) (initialize None))
      = Some ''line''
   \<and> \<not> isDrawing (triangle_run ''line'' (flat_map \<lparr>px = 800, py = 600\<rparr>) (initialize None))
   \<and> map_option geom
        (shape (triangle_run ''line'' (flat_map \<lparr>px = 800, py = 600\<rparr>) (initialize None)))
      = Some (Polyline [\<lparr>lat = 0, lng = 0\<rparr>, \<lparr>lat = 0, lng = 60\<rparr>, \<lparr>lat = 80, lng = 60\<rparr>])
   \<and> candidate_distances (flat_map \<lparr>px = 800, py = 600\<rparr>) \<lparr>px = 30, py = 40\<rparr>
        (nodes (triangle_run ''line'' (flat_map \<lparr>px = 800, py = 600\<rparr>) (initialize None)))
      = [40, 30, 0]
   \<and> map nlatlng (nodes (onMapClick (flat_map \<lparr>px = 800, py = 600\<rparr>) \<lparr>lat = 40, lng = 30\<rparr>
        (triangle_run ''line'' (flat_map \<lparr>px = 800, py = 600\<rparr>) (initialize None))))
      = [\<lparr>lat = 0, lng = 0\<rparr>, \<lparr>lat = 0, lng = 60\<rparr>, \<lparr>lat = 80, lng = 60\<rparr>,
         \<lparr>lat = 40, lng = 30\<rparr>]"
  using triangle_line_state[of "\<lparr>px = 800, py = 600\<rparr>"]
    triangle_candidates[OF triangle_line_state(1), of "\<lparr>px = 800, py = 600\<rparr>" "\<lparr>px = 800, py = 600\<rparr>"]
    triangle_insertion(1)[OF triangle_line_state(1,2) _ triangle_line_state(4),
       of "\<lparr>px = 800, py = 600\<rparr>" "\<lparr>px = 800, py = 600\<rparr>"]
  by simp

text \<open>
  C7. On the idle line through (0,0), (60,0) and (60,80), with the default node radius
  of 6, a click at (30,40) is 40 and 30 pixels away from the two segments of the line,
  more than \<open>2 * nodeRadius = 12\<close>, and the first block of \<^verbatim>\<open>_onMapClick\<close>
  inserts a node all the same: the segment of its loop that is near the click is the
  one from the last node back to the first, which is no segment of a line.
\<close>

theorem line_insertion_far_from_segments:
  "shapeType (triangle_run ''line'' (flat_map \<lparr>px = 800, py = 600\<rparr>) (initialize None))
      = Some ''line''
   \<and> \<not> isDrawing (triangle_run ''line'' (flat_map \<lparr>px = 800, py = 600\<rparr>) (initialize None))
   \<and> nodeRadius (opts (triangle_run ''line'' (flat_map \<lparr>px = 800, py = 600\<rparr>)
        (initialize None))) * 2 = 12
   \<and> spec_candidate_distances (flat_map \<lparr>px = 800, py = 600\<rparr>)
        (latLngToContainerPoint (flat_map \<lparr>px = 800, py = 600\<rparr>) \<lparr>lat = 40, lng = 30\<rparr>)
        (Some ''line'')
        (nodes (triangle_run ''line'' (flat_map \<lparr>px = 800, py = 600\<rparr>) (initialize None)))
      = [40, 30]
   \<and> idleInsertion (flat_map \<lparr>px = 800, py = 600\<rparr>) \<lparr>lat = 40, lng = 30\<rparr>
        (triangle_run ''line'' (flat_map \<lparr>px = 800, py = 600\<rparr>) (initialize None)) \<noteq> None
   \<and> length (nodes (onMapClick (flat_map \<lparr>px = 800, py = 600\<rparr>) \<lparr>lat = 40, lng = 30\<rparr>
        (triangle_run ''line'' (flat_map \<lparr>px = 800, py = 600\<rparr>) (initialize None)))) = 4"
proof -
  let ?F = "flat_map \<lparr>px = 800, py = 600\<rparr>"
  let ?L = "triangle_run ''line'' ?F (initialize None)"
  note st = triangle_line_state[of "\<lparr>px = 800, py = 600\<rparr>"]
  have len: "length (nodes ?L) = 3"
    using arg_cong[where f = length, OF st(1)] by simp
  obtain n0 n1 n2 where ns: "nodes ?L = [n0, n1, n2]"
    and ll: "nlatlng n0 = \<lparr>lat = 0, lng = 0\<rparr>" "nlatlng n1 = \<lparr>lat = 0, lng = 60\<rparr>"
      "nlatlng n2 = \<lparr>lat = 80, lng = 60\<rparr>"
    using st(1) by (rule triangle_nodes)
  have real_segments: "spec_candidate_distances ?F (latLngToContainerPoint ?F \<lparr>lat = 40, lng = 30\<rparr>)
        (Some ''line'') (nodes ?L) = [40, 30]"
    unfolding ns
    by (simp add: spec_candidate_distances_def consecutive_pairs_def flat_map_def ll
          flat_projection_def pointToLineDistance_def Let_def sqrt_values)
  have far: "\<forall>n \<in> set (nodes ?L). 12 < pointDistanceTo ?F \<lparr>px = 30, py = 40\<rparr>
                (latLngToContainerPoint ?F (nlatlng n))"
  proof -
    have "\<forall>d \<in> set (map (\<lambda>n. pointDistanceTo ?F \<lparr>px = 30, py = 40\<rparr>
                (latLngToContainerPoint ?F (nlatlng n))) (nodes ?L)). 12 < d"
      unfolding triangle_nodes_far[OF st(1)] by simp
    then show ?thesis by simp
  qed
  have cond: "\<not> isDrawing ?L
      \<and> (shapeType ?L = Some ''polygon'' \<or> shapeType ?L = Some ''line'')
      \<and> (if shapeType ?L = Some ''polygon'' then 3 else 2) \<le> length (nodes ?L)
      \<and> (\<forall>n \<in> set (nodes ?L).
            nodeRadius (opts ?L) * 2
              < pointDistanceTo ?F (latLngToContainerPoint ?F \<lparr>lat = 40, lng = 30\<rparr>)
                  (latLngToContainerPoint ?F (nlatlng n)))
      \<and> Min (set (candidate_distances ?F (latLngToContainerPoint ?F \<lparr>lat = 40, lng = 30\<rparr>) (nodes ?L)))
            \<le> nodeRadius (opts ?L) * 2"
    using far
    by (simp add: st(2,3,4) len click_projection triangle_candidates[OF st(1)])
  have fires: "idleInsertion ?F \<lparr>lat = 40, lng = 30\<rparr> ?L \<noteq> None"
    using idleInsertion_Some_iff[of ?F "\<lparr>lat = 40, lng = 30\<rparr>" ?L] cond by blast
  have grown: "length (nodes (onMapClick ?F \<lparr>lat = 40, lng = 30\<rparr> ?L)) = 4"
    using arg_cong[where f = length,
            OF triangle_insertion(1)[OF st(1,2) _ st(4), of "\<lparr>px = 800, py = 600\<rparr>"]] st(3)
    by simp
  show ?thesis
    using st(2,3,4) real_segments fires grown by simp
qed

text \<open>
  On the polygon with the same three nodes a click at (30,40) is on the closing edge
  and far from the nodes, so a node is inserted; a click on the first node is too close
  to it, and nothing changes.
\<close>

lemma idleInsertion_when_polygon_example:
  "idleInsertion (flat_map \<lparr>px = 800, py = 600\<rparr>) \<lparr>lat = 40, lng = 30\<rparr>
      (triangle_run ''polygon'' (flat_map \<lparr>px = 800, py = 600\<rparr>) (initialize None)) \<noteq> None
   \<and> length (nodes (onMapClick (flat_map \<lparr>px = 800, py = 600\<rparr>) \<lparr>lat = 40, lng = 30\<rparr>
        (triangle_run ''polygon'' (flat_map \<lparr>px = 800, py = 600\<rparr>) (initialize None)))) = 4
   \<and> idleInsertion (flat_map \<lparr>px = 800, py = 600\<rparr>) \<lparr>lat = 0, lng = 0\<rparr>
        (triangle_run ''polygon'' (flat_map \<lparr>px = 800, py = 600\<rparr>) (initialize None)) = None
   \<and> onMapClick (flat_map \<lparr>px = 800, py = 600\<rparr>) \<lparr>lat = 0, lng = 0\<rparr>
        (triangle_run ''polygon'' (flat_map \<lparr>px = 800, py = 600\<rparr>) (initialize None))
       = triangle_run ''polygon'' (flat_map \<lparr>px = 800, py = 600\<rparr>) (initialize None)"
proof -
  let ?F = "flat_map \<lparr>px = 800, py = 600\<rparr>"
  let ?T = "triangle_run ''polygon'' ?F (initialize None)"
  note st = triangle_polygon_state[of "\<lparr>px = 800, py = 600\<rparr>"]
  have len: "length (nodes ?T) = 3"
    using arg_cong[where f = length, OF st(1)] by simp
  have far: "\<forall>n \<in> set (nodes ?T). 12 < pointDistanceTo ?F \<lparr>px = 30, py = 40\<rparr>
                (latLngToContainerPoint ?F (nlatlng n))"
  proof -
    have "\<forall>d \<in> set (map (\<lambda>n. pointDistanceTo ?F \<lparr>px = 30, py = 40\<rparr>
                (latLngToContainerPoint ?F (nlatlng n))) (nodes ?T)). 12 < d"
      unfolding triangle_nodes_far[OF st(1)] by simp
    then show ?thesis by simp
  qed
  have near: "\<not> (\<forall>n \<in> set (nodes ?T). 12 < pointDistanceTo ?F \<lparr>px = 0, py = 0\<rparr>
                (latLngToContainerPoint ?F (nlatlng n)))"
  proof -
    obtain n0 n1 n2 where "nodes ?T = [n0, n1, n2]" and "nlatlng n0 = \<lparr>lat = 0, lng = 0\<rparr>"
      using st(1) by (rule triangle_nodes)
    then show ?thesis
      by (simp add: flat_map_def flat_projection_def euclid_def)
  qed
  have p0: "latLngToContainerPoint ?F \<lparr>lat = 0, lng = 0\<rparr> = \<lparr>px = 0, py = 0\<rparr>"
    by (simp add: flat_map_def flat_projection_def)
  note inst1 = idleInsertion_when[of ?F "\<lparr>lat = 40, lng = 30\<rparr>" ?T]
  note inst2 = idleInsertion_when[of ?F "\<lparr>lat = 0, lng = 0\<rparr>" ?T]
  have cond: "\<not> isDrawing ?T
      \<and> (shapeType ?T = Some ''polygon'' \<or> shapeType ?T = Some ''line'')
      \<and> (if shapeType ?T = Some ''polygon'' then 3 else 2) \<le> length (nodes ?T)
      \<and> (\<forall>n \<in> set (nodes ?T).
            nodeRadius (opts ?T) * 2
              < pointDistanceTo ?F (latLngToContainerPoint ?F \<lparr>lat = 40, lng = 30\<rparr>)
                  (latLngToContainerPoint ?F (nlatlng n)))
      \<and> Min (set (candidate_distances ?F (latLngToContainerPoint ?F \<lparr>lat = 40, lng = 30\<rparr>) (nodes ?T)))
            \<le> nodeRadius (opts ?T) * 2"
    using far
    by (simp add: st(2,3,4) len click_projection triangle_candidates[OF st(1)])
  have fires: "idleInsertion ?F \<lparr>lat = 40, lng = 30\<rparr> ?T \<noteq> None"
    using inst1 cond by blast
  then obtain s' where s': "idleInsertion ?F \<lparr>lat = 40, lng = 30\<rparr> ?T = Some s'"
    by blast
  have grown: "length (nodes (onMapClick ?F \<lparr>lat = 40, lng = 30\<rparr> ?T)) = 4"
    using inst1 s' len by simp
  have ncond: "\<not> (\<forall>n \<in> set (nodes ?T).
            nodeRadius (opts ?T) * 2
              < pointDistanceTo ?F (latLngToContainerPoint ?F \<lparr>lat = 0, lng = 0\<rparr>)
                  (latLngToContainerPoint ?F (nlatlng n)))"
    using near by (simp add: p0 st(4))
  have none: "idleInsertion ?F \<lparr>lat = 0, lng = 0\<rparr> ?T = None"
    using inst2 ncond by blast
  have same: "onMapClick ?F \<lparr>lat = 0, lng = 0\<rparr> ?T = ?T"
    using inst2 none st(2) by blast
  show ?thesis
    using fires grown none same by blast
qed


section \<open>The round trip through GeoJSON\<close>

lemma createNodes_nodes:
  "map nlatlng (nodes (createNodes cs s)) = map nlatlng (nodes s) @ cs"
  by (induction cs arbitrary: s) (simp_all add: split_def Let_def createNode_fields)

lemma createNodes_shapeType: "shapeType (createNodes cs s) = shapeType s"
  by (induction cs arbitrary: s) (simp_all add: split_def Let_def createNode_fields)

lemma createNodes_shape: "shape (createNodes cs s) = shape s"
  by (induction cs arbitrary: s) (simp_all add: split_def Let_def createNode_fields)

lemma toLatLng_Pos: "toLatLng (Pos (lng l) (lat l)) = Inr l"
  by (simp add: toLatLng_def)

lemma toLatLngs_exported: "toLatLngs (exported ls) = Inr ls"
  by (induction ls) (simp_all add: exported_def toLatLng_def)

lemma exported_nth:
  "length (exported ls) = length ls"
  "i < length ls \<Longrightarrow> exported ls ! i = Pos (lng (ls ! i)) (lat (ls ! i))"
  by (simp_all add: exported_def)

lemma lower_names:
  "toLowerCase ''Point'' = ''point''"
  "toLowerCase ''LineString'' = ''linestring''"
  "toLowerCase ''Polygon'' = ''polygon''"
  by code_simp+

lemma drawFromGeoJSON_nodes:
  assumes "gtype g = Some t" and "t \<noteq> []"
    and "importSwitch t g = Inr (Some (ty, cs))"
    and "radius g = None"
  shows "\<exists>s'. drawFromGeoJSON m (JObject g) None s = Inr s'
           \<and> map nlatlng (nodes s') = cs \<and> shapeType s' = Some ty
           \<and> shape s' = shape (updateShape m (createNodes cs ((clear s)\<lparr>shapeType := Some ty\<rparr>)))"
  using assms
  by (simp add: drawFromGeoJSON_def Let_def createNodes_nodes createNodes_shapeType
        field_simps_editor)

lemma importSwitch_polygon_ring:
  "importSwitch ''Polygon''
      \<lparr>gtype = Some ''Polygon'', coordinates = Rings [exported ls @ [x]], radius = None\<rparr>
     = (if length ls = 4 then Inr (Some (''rectangle'', [ls ! 0, ls ! 2]))
        else Inr (Some (''polygon'', ls)))"
  by (simp add: importSwitch_def exported_nth toLatLngs_exported nth_append toLatLng_Pos
        lower_names)

lemma importSwitch_rectangle_ring:
  "importSwitch ''Polygon''
      \<lparr>gtype = Some ''Polygon'',
       coordinates = Rings [[Pos (lng a) (lat a), Pos (lng b) (lat a), Pos (lng b) (lat b),
                             Pos (lng a) (lat b), Pos (lng a) (lat a)]],
       radius = None\<rparr>
     = Inr (Some (''rectangle'', [a, b]))"
  by (simp add: importSwitch_def toLatLng_Pos)

lemma importSwitch_point:
  "importSwitch ''Point''
      \<lparr>gtype = Some ''Point'', coordinates = Position (Pos (lng a) (lat a)), radius = None\<rparr>
     = Inr (Some (''point'', [a]))"
  by (simp add: importSwitch_def toLatLng_Pos lower_names)

lemma importSwitch_line:
  "importSwitch ''LineString''
      \<lparr>gtype = Some ''LineString'', coordinates = Positions (exported ls), radius = None\<rparr>
     = Inr (Some (''linestring'', ls))"
  by (simp add: importSwitch_def toLatLngs_exported lower_names)

lemma getGeoJSON_exported:
  assumes "shape s \<noteq> None"
  shows "shapeType s = Some ''point'' \<Longrightarrow> nodes s = [n] \<Longrightarrow>
           getGeoJSON s = Inr (JObject \<lparr>gtype = Some ''Point'',
              coordinates = Position (Pos (lng (nlatlng n)) (lat (nlatlng n))), radius = None\<rparr>)"
    and "shapeType s = Some ''polygon'' \<Longrightarrow>
           getGeoJSON s = Inr (JObject \<lparr>gtype = Some ''Polygon'',
              coordinates = Rings [exported (map nlatlng (nodes s))
                                     @ [at0 (exported (map nlatlng (nodes s)))]], radius = None\<rparr>)"
    and "shapeType s = Some ''rectangle'' \<Longrightarrow> nodes s = [n0, n1] \<Longrightarrow>
           getGeoJSON s = Inr (JObject \<lparr>gtype = Some ''Polygon'',
              coordinates = Rings [[Pos (lng (nlatlng n0)) (lat (nlatlng n0)),
                                    Pos (lng (nlatlng n1)) (lat (nlatlng n0)),
                                    Pos (lng (nlatlng n1)) (lat (nlatlng n1)),
                                    Pos (lng (nlatlng n0)) (lat (nlatlng n1)),
                                    Pos (lng (nlatlng n0)) (lat (nlatlng n0))]], radius = None\<rparr>)"
    and "shapeType s = Some ''line'' \<Longrightarrow>
           getGeoJSON s = Inr (JObject \<lparr>gtype = Some ''LineString'',
              coordinates = Positions (exported (map nlatlng (nodes s))), radius = None\<rparr>)"
    and "shapeType s = Some ''circle'' \<Longrightarrow> length (nodes s) = 2 \<Longrightarrow> getGeoJSON s = Inl TypeError"
  using assms
  by (simp_all add: getGeoJSON_coords exported_def at0_def Let_def)

lemma roundTrip_point:
  assumes "shape s \<noteq> None" and "shapeType s = Some ''point''" and "length (nodes s) = 1"
  shows "reproduces s (roundTrip m s)"
proof -
  obtain n where n: "nodes s = [n]"
    using assms(3) by (cases "nodes s") auto
  obtain s' where "drawFromGeoJSON m (JObject \<lparr>gtype = Some ''Point'',
            coordinates = Position (Pos (lng (nlatlng n)) (lat (nlatlng n))), radius = None\<rparr>)
          None s = Inr s'"
      "map nlatlng (nodes s') = [nlatlng n]" "shapeType s' = Some ''point''"
    using drawFromGeoJSON_nodes[OF _ _ importSwitch_point, of "nlatlng n" m s] by auto
  then show ?thesis
    using assms(2) n
    by (simp add: roundTrip_def getGeoJSON_exported(1)[OF assms(1)] reproduces_def)
qed

lemma roundTrip_rectangle:
  assumes "shape s \<noteq> None" and "shapeType s = Some ''rectangle''" and "length (nodes s) = 2"
  shows "reproduces s (roundTrip m s)"
proof -
  obtain n0 n1 where n: "nodes s = [n0, n1]"
    using assms(3) by (auto simp add: length_Suc_conv numeral_2_eq_2)
  obtain s' where "drawFromGeoJSON m (JObject \<lparr>gtype = Some ''Polygon'',
            coordinates = Rings [[Pos (lng (nlatlng n0)) (lat (nlatlng n0)),
                                  Pos (lng (nlatlng n1)) (lat (nlatlng n0)),
                                  Pos (lng (nlatlng n1)) (lat (nlatlng n1)),
                                  Pos (lng (nlatlng n0)) (lat (nlatlng n1)),
                                  Pos (lng (nlatlng n0)) (lat (nlatlng n0))]], radius = None\<rparr>)
          None s = Inr s'"
      "map nlatlng (nodes s') = [nlatlng n0, nlatlng n1]" "shapeType s' = Some ''rectangle''"
    using drawFromGeoJSON_nodes[OF _ _ importSwitch_rectangle_ring, of "nlatlng n0" "nlatlng n1" m s]
    by auto
  then show ?thesis
    using assms(2) n
    by (simp add: roundTrip_def getGeoJSON_exported(3)[OF assms(1)] reproduces_def)
qed

lemma roundTrip_polygon:
  assumes "shape s \<noteq> None" and "shapeType s = Some ''polygon''"
  shows "\<exists>s'. roundTrip m s = Inr s'
        \<and> map nlatlng (nodes s')
            = (if length (nodes s) = 4 then [nlatlng (nodes s ! 0), nlatlng (nodes s ! 2)]
               else map nlatlng (nodes s))
        \<and> shapeType s' = Some (if length (nodes s) = 4 then ''rectangle'' else ''polygon'')"
proof -
  have sw: "importSwitch ''Polygon'' \<lparr>gtype = Some ''Polygon'',
          coordinates = Rings [exported (map nlatlng (nodes s))
                                 @ [at0 (exported (map nlatlng (nodes s)))]], radius = None\<rparr>
        = Inr (Some (if length (nodes s) = 4 then ''rectangle'' else ''polygon'',
                     if length (nodes s) = 4 then [nlatlng (nodes s ! 0), nlatlng (nodes s ! 2)]
                     else map nlatlng (nodes s)))"
    by (simp add: importSwitch_polygon_ring)
  obtain s' where "drawFromGeoJSON m (JObject \<lparr>gtype = Some ''Polygon'',
          coordinates = Rings [exported (map nlatlng (nodes s))
                                 @ [at0 (exported (map nlatlng (nodes s)))]], radius = None\<rparr>)
        None s = Inr s'"
    and "map nlatlng (nodes s')
            = (if length (nodes s) = 4 then [nlatlng (nodes s ! 0), nlatlng (nodes s ! 2)]
               else map nlatlng (nodes s))"
    and "shapeType s' = Some (if length (nodes s) = 4 then ''rectangle'' else ''polygon'')"
    using drawFromGeoJSON_nodes[OF _ _ sw, of m s] by auto
  then show ?thesis
    by (simp add: roundTrip_def getGeoJSON_exported(2)[OF assms])
qed

text \<open>
  The two shape types that the amended C1 leaves out. A line comes back with the shape
  type \<^verbatim>\<open>linestring\<close>, the lower-cased GeoJSON type, which no branch of
  \<^verbatim>\<open>_updateShape\<close> knows: the nodes are there and no shape is drawn. The export of
  a circle throws before anything is imported.
\<close>

lemma roundTrip_line:
  assumes "shape s \<noteq> None" and "shapeType s = Some ''line''"
  shows "\<exists>s'. roundTrip m s = Inr s' \<and> map nlatlng (nodes s') = map nlatlng (nodes s)
           \<and> shapeType s' = Some ''linestring'' \<and> shape s' = None"
  using drawFromGeoJSON_nodes[OF _ _ importSwitch_line, of "map nlatlng (nodes s)" m s]
  by (auto simp add: roundTrip_def getGeoJSON_exported(4)[OF assms] updateShape_def
        createNodes_shape createNodes_shapeType clear_fields)

lemma roundTrip_circle:
  assumes "shape s \<noteq> None" and "shapeType s = Some ''circle''" and "length (nodes s) = 2"
  shows "roundTrip m s = Inl (Thrown TypeError)"
  by (simp add: roundTrip_def getGeoJSON_exported(5)[OF assms])


text \<open>
  C1 as the specification states it fails for a polygon of four nodes: the ring that is
  exported has five positions, and the import takes every ring of five positions for a
  rectangle. The polygon here is the triangle (0,0), (60,0), (60,80) with a fourth node
  inserted on its closing edge.
\<close>

theorem roundTrip_quadrilateral_counterexample:
  "completed (onMapClick (flat_map \<lparr>px = 800, py = 600\<rparr>) \<lparr>lat = 40, lng = 30\<rparr>
       (triangle_run ''polygon'' (flat_map \<lparr>px = 800, py = 600\<rparr>) (initialize None)))
   \<and> \<not> reproduces
       (onMapClick (flat_map \<lparr>px = 800, py = 600\<rparr>) \<lparr>lat = 40, lng = 30\<rparr>
          (triangle_run ''polygon'' (flat_map \<lparr>px = 800, py = 600\<rparr>) (initialize None)))
       (roundTrip (flat_map \<lparr>px = 800, py = 600\<rparr>)
          (onMapClick (flat_map \<lparr>px = 800, py = 600\<rparr>) \<lparr>lat = 40, lng = 30\<rparr>
             (triangle_run ''polygon'' (flat_map \<lparr>px = 800, py = 600\<rparr>) (initialize None))))"
proof -
  let ?F = "flat_map \<lparr>px = 800, py = 600\<rparr>"
  let ?Q = "onMapClick ?F \<lparr>lat = 40, lng = 30\<rparr> (triangle_run ''polygon'' ?F (initialize None))"
  note st = triangle_polygon_state[of "\<lparr>px = 800, py = 600\<rparr>"]
  note q = triangle_insertion[OF st(1,2) _ st(4), of "\<lparr>px = 800, py = 600\<rparr>"]
  have ty: "shapeType ?Q = Some ''polygon''"
    using q(2) st(3) by simp
  have sh: "shape ?Q \<noteq> None"
    using q(3) st(3) by simp
  have len: "length (nodes ?Q) = 4"
    using arg_cong[where f = length, OF q(1)] st(3) by simp
  have c: "completed ?Q"
    by (simp add: completed_def ty sh len)
  obtain s' where "roundTrip ?F ?Q = Inr s'" and "shapeType s' = Some ''rectangle''"
    using roundTrip_polygon[OF sh ty, of ?F] len by auto
  then have "\<not> reproduces ?Q (roundTrip ?F ?Q)"
    by (simp add: reproduces_def ty)
  with c show ?thesis by blast
qed

text \<open>
  C1, amended. For every editor with a shape: a point with its one node, a rectangle
  with its two nodes, and a polygon with at least three nodes other than four come back
  from \<^verbatim>\<open>drawFromGeoJSON(getGeoJSON())\<close> with the same coordinates in the same
  order and the same shape type; a polygon with four nodes comes back as the rectangle
  on its first and third node.
\<close>

theorem roundTrip_reproduces:
  assumes "shape s \<noteq> None"
  shows "(shapeType s = Some ''point'' \<and> length (nodes s) = 1 \<longrightarrow> reproduces s (roundTrip m s))
    \<and> (shapeType s = Some ''rectangle'' \<and> length (nodes s) = 2 \<longrightarrow> reproduces s (roundTrip m s))
    \<and> (shapeType s = Some ''polygon'' \<and> 3 \<le> length (nodes s) \<and> length (nodes s) \<noteq> 4
          \<longrightarrow> reproduces s (roundTrip m s))
    \<and> (shapeType s = Some ''polygon'' \<and> length (nodes s) = 4 \<longrightarrow>
          (case roundTrip m s of
             Inl e \<Rightarrow> False
           | Inr s' \<Rightarrow> shapeType s' = Some ''rectangle''
                \<and> map nlatlng (nodes s') = [nlatlng (nodes s ! 0), nlatlng (nodes s ! 2)]))"
proof -
  have "shapeType s = Some ''polygon'' \<and> length (nodes s) \<noteq> 4 \<longrightarrow> reproduces s (roundTrip m s)"
    using roundTrip_polygon[OF assms, of m] by (auto simp add: reproduces_def)
  moreover have "shapeType s = Some ''polygon'' \<and> length (nodes s) = 4 \<longrightarrow>
          (case roundTrip m s of
             Inl e \<Rightarrow> False
           | Inr s' \<Rightarrow> shapeType s' = Some ''rectangle''
                \<and> map nlatlng (nodes s') = [nlatlng (nodes s ! 0), nlatlng (nodes s ! 2)])"
    using roundTrip_polygon[OF assms, of m] by auto
  ultimately show ?thesis
    using roundTrip_point[OF assms, of m] roundTrip_rectangle[OF assms, of m] by blast
qed

theorem roundTrip_reproduces_witness:
  "reproduces (point_run \<lparr>lat = 1, lng = 2\<rparr> (flat_map \<lparr>px = 800, py = 600\<rparr>) (initialize None))
     (roundTrip (flat_map \<lparr>px = 800, py = 600\<rparr>)
        (point_run \<lparr>lat = 1, lng = 2\<rparr> (flat_map \<lparr>px = 800, py = 600\<rparr>) (initialize None)))
   \<and> reproduces
       (two_clicks ''rectangle'' \<lparr>lat = 10, lng = 10\<rparr> \<lparr>lat = 20, lng = 20\<rparr>
          (flat_map \<lparr>px = 800, py = 600\<rparr>) (initialize None))
       (roundTrip (flat_map \<lparr>px = 800, py = 600\<rparr>)
          (two_clicks ''rectangle'' \<lparr>lat = 10, lng = 10\<rparr> \<lparr>lat = 20, lng = 20\<rparr>
             (flat_map \<lparr>px = 800, py = 600\<rparr>) (initialize None)))
   \<and> reproduces (triangle_run ''polygon'' (flat_map \<lparr>px = 800, py = 600\<rparr>) (initialize None))
       (roundTrip (flat_map \<lparr>px = 800, py = 600\<rparr>)
          (triangle_run ''polygon'' (flat_map \<lparr>px = 800, py = 600\<rparr>) (initialize None)))
   \<and> (case roundTrip (flat_map \<lparr>px = 800, py = 600\<rparr>)
          (onMapClick (flat_map \<lparr>px = 800, py = 600\<rparr>) \<lparr>lat = 40, lng = 30\<rparr>
             (triangle_run ''polygon'' (flat_map \<lparr>px = 800, py = 600\<rparr>) (initialize None))) of
         Inl e \<Rightarrow> False
       | Inr s' \<Rightarrow> shapeType s' = Some ''rectangle''
            \<and> map nlatlng (nodes s') = [\<lparr>lat = 0, lng = 0\<rparr>, \<lparr>lat = 80, lng = 60\<rparr>])"
proof -
  let ?F = "flat_map \<lparr>px = 800, py = 600\<rparr>"
  let ?P = "point_run \<lparr>lat = 1, lng = 2\<rparr> ?F (initialize None)"
  let ?R = "two_clicks ''rectangle'' \<lparr>lat = 10, lng = 10\<rparr> \<lparr>lat = 20, lng = 20\<rparr> ?F (initialize None)"
  let ?T = "triangle_run ''polygon'' ?F (initialize None)"
  have d: "isDrawing (startDrawing ''point'' (initialize None))"
    "shapeType (startDrawing ''point'' (initialize None)) = Some ''point''"
    "shape (startDrawing ''point'' (initialize None)) = None"
    by (simp_all add: startDrawing_fields)
  note pt = onMapClick_point[OF d, of ?F "\<lparr>lat = 1, lng = 2\<rparr>"]
  have p: "shape ?P \<noteq> None" "shapeType ?P = Some ''point''" "length (nodes ?P) = 1"
    by (simp_all add: point_run_def pt(1,2,3) startDrawing_fields)
  note rs = two_clicks_state[of "''rectangle''" "\<lparr>lat = 10, lng = 10\<rparr>" "\<lparr>lat = 20, lng = 20\<rparr>"
               ?F "initialize None"]
  have r: "shape ?R \<noteq> None" "shapeType ?R = Some ''rectangle''" "length (nodes ?R) = 2"
    using rs(5) rs(2) arg_cong[where f = length, OF rs(1)] by auto
  note ts = triangle_polygon_state[of "\<lparr>px = 800, py = 600\<rparr>"]
  have t: "shape ?T \<noteq> None" "shapeType ?T = Some ''polygon''" "length (nodes ?T) = 3"
    using ts(5) ts(3) arg_cong[where f = length, OF ts(1)] by auto
  let ?Q = "onMapClick ?F \<lparr>lat = 40, lng = 30\<rparr> ?T"
  note qs = triangle_insertion[OF ts(1,2) _ ts(4), of "\<lparr>px = 800, py = 600\<rparr>"]
  have q: "shape ?Q \<noteq> None" "shapeType ?Q = Some ''polygon''" "length (nodes ?Q) = 4"
    using qs(3) qs(2) ts(3) arg_cong[where f = length, OF qs(1)] by auto
  have "map nlatlng (nodes ?Q) ! 0 = \<lparr>lat = 0, lng = 0\<rparr>"
    and "map nlatlng (nodes ?Q) ! 2 = \<lparr>lat = 80, lng = 60\<rparr>"
    using qs(1) ts(3) by simp_all
  then have q02: "nlatlng (nodes ?Q ! 0) = \<lparr>lat = 0, lng = 0\<rparr>"
    "nlatlng (nodes ?Q ! 2) = \<lparr>lat = 80, lng = 60\<rparr>"
    using q(3) by simp_all
  show ?thesis
    using roundTrip_reproduces[OF p(1), of ?F] roundTrip_reproduces[OF r(1), of ?F]
      roundTrip_reproduces[OF t(1), of ?F] roundTrip_reproduces[OF q(1), of ?F]
    by (simp add: p(2,3) r(2,3) t(2,3) q(2,3) q02 split: sum.splits)
qed


end
